theory Spec2Isabelle
  imports Complex_Main
begin

section \<open>Python values shared by the model\<close>

text \<open>
  The exceptions that \<^verbatim>\<open>alpa/device_mesh.py\<close> can raise in the code modelled here.
  Each constructor is the Python exception class; \<open>RuntimeError\<close> carries its message.
  \<open>XlaRuntimeError\<close> stands for whatever the XLA client raises. The specification's
  taxonomy names them by role: a failed \<^verbatim>\<open>assert uuid not in self.buffers\<close>
  (\<open>AssertionError\<close>) and the \<open>RuntimeError\<close>s of \<^verbatim>\<open>add_replica\<close> are its
  AlreadyExists; a \<open>KeyError\<close> on a missing uuid is its NotFound.
\<close>

datatype error =
    AssertionError
  | KeyError
  | IndexError
  | ZeroDivisionError
  | ValueError
  | TypeError
  | AttributeError
  | RuntimeError string
  | XlaRuntimeError

text \<open>
  \<^verbatim>\<open>xs[i]\<close> on a Python list: a negative subscript counts from the end, and a
  subscript outside \<open>[-len, len)\<close> raises \<open>IndexError\<close>.
\<close>

definition list_getitem :: "'a list \<Rightarrow> int \<Rightarrow> error + 'a" where
  "list_getitem xs i =
     (if 0 \<le> i \<and> i < int (length xs) then Inr (xs ! nat i)
      else if i < 0 \<and> - int (length xs) \<le> i then Inr (xs ! nat (int (length xs) + i))
      else Inl IndexError)"

section \<open>MeshHostWorker: the buffer map\<close>

text \<open>
  Modelled from the spec: \<^verbatim>\<open>self.backend\<close> is the XLA client made by
  \<^verbatim>\<open>xla_client.make_gpu_client\<close>, which is not code of this repository. The field
  \<open>backend\<close> holds the one method the buffer functions call,
  \<^verbatim>\<open>buffer_from_pyval(data, device)\<close>, as a parameter: given host data and a device
  it either returns a device buffer (the "handle" that the specification says is stored)
  or raises. Nothing is assumed about which data it accepts or what the buffer holds.

  The other two fields are those of \<^verbatim>\<open>MeshHostWorker\<close> that the buffer functions read
  and write: \<^verbatim>\<open>self.local_devices\<close> and \<^verbatim>\<open>self.buffers\<close> (a dict from uuid to device
  buffer).
\<close>

record ('dev, 'dat, 'buf) MeshHostWorker =
  local_devices :: "'dev list"
  backend :: "'dat \<Rightarrow> 'dev \<Rightarrow> error + 'buf"
  buffers :: "int \<rightharpoonup> 'buf"

text \<open>
  \<^verbatim>\<open>uuids: Union[Sequence[int], int]\<close>: the functions branch on
  \<^verbatim>\<open>isinstance(uuids, Iterable)\<close>.
\<close>

datatype uuids = Single int | Many "int list"





text \<open>
  \<^verbatim>\<open>
  def delete_buffers(self, uuids):
      if isinstance(uuids, Iterable):
          for uuid in uuids:
              del self.buffers[uuid]
      else:
          del self.buffers[uuids]
  \<close>
  The loop deletes in place: when \<^verbatim>\<open>del\<close> raises, the entries removed so far stay
  removed, so the function returns the map it reached together with the outcome.
\<close>

fun delete_each :: "'k list \<Rightarrow> ('k \<rightharpoonup> 'b) \<Rightarrow> (error + unit) \<times> ('k \<rightharpoonup> 'b)" where
  "delete_each [] bs = (Inr (), bs)"
| "delete_each (u # us) bs =
     (case bs u of
        None \<Rightarrow> (Inl KeyError, bs)
      | Some _ \<Rightarrow> delete_each us (bs(u := None)))"

definition delete_buffers ::
  "uuids \<Rightarrow> ('dev, 'dat, 'buf) MeshHostWorker
     \<Rightarrow> (error + unit) \<times> ('dev, 'dat, 'buf) MeshHostWorker" where
  "delete_buffers uuids w =
     (case uuids of
        Many us \<Rightarrow> (case delete_each us (buffers w) of (r, bs) \<Rightarrow> (r, w\<lparr>buffers := bs\<rparr>))
      | Single u \<Rightarrow> (case delete_each [u] (buffers w) of (r, bs) \<Rightarrow> (r, w\<lparr>buffers := bs\<rparr>)))"

section \<open>Distributed array values\<close>

text \<open>
  Modelled from the spec: \<^verbatim>\<open>RemoteBufferRef\<close> is a class of \<^verbatim>\<open>alpa/mesh_executable.py\<close>,
  which is not among the sources. The specification's data model gives its content: an
  opaque integer uuid, the owning host index, the owning device index and the element
  dtype.
\<close>

record RemoteBufferRef =
  ref_host_id :: nat
  ref_device_id :: nat
  ref_uuid :: int
  ref_dtype :: string





text \<open>\<^verbatim>\<open>jax.core.ShapedArray\<close>, as far as the code reads it: a shape and a dtype.\<close>

record ShapedArray =
  shape :: "nat list"
  dtype :: string

text \<open>The value \<^verbatim>\<open>None\<close> held by an attribute, as opposed to the attribute being absent.\<close>

datatype py_none = PyNone

text \<open>
  The attributes of a \<^verbatim>\<open>DistributedArray\<close>. \<open>array_id\<close> is the identity of the Python
  object (what \<^verbatim>\<open>hash\<close> and \<^verbatim>\<open>==\<close> use, the class defining neither) and \<open>device_mesh\<close>
  the identity of the mesh object. \<^verbatim>\<open>_npy_value\<close> and \<^verbatim>\<open>_one_replica_buffer_indices\<close>
  are the two caches. \<open>device_buffers\<close> is \<open>None\<close> while the object has no attribute of
  that name: \<^verbatim>\<open>__init__\<close> does not create it.
\<close>

type_synonym mesh_ref = nat

record ('idx, 'spec, 'val) DistributedArray =
  array_id :: nat
  device_mesh :: mesh_ref
  aval :: ShapedArray
  sharding_spec :: 'spec
  remote_buffers :: "RemoteBufferRef list"
  indices :: "'idx list"
  npy_value :: "'val option"
  cached_one_replica_buffer_indices :: "nat list option"
  device_buffers :: "py_none option"

definition DistributedArray_init ::
  "nat \<Rightarrow> mesh_ref \<Rightarrow> ShapedArray \<Rightarrow> 'spec \<Rightarrow> RemoteBufferRef list \<Rightarrow> 'idx list
     \<Rightarrow> ('idx, 'spec, 'val) DistributedArray" where
  "DistributedArray_init self mesh av spec bufs idxs =
     \<lparr>array_id = self, device_mesh = mesh, aval = av, sharding_spec = spec,
      remote_buffers = bufs, indices = idxs, npy_value = None,
      cached_one_replica_buffer_indices = None, device_buffers = None\<rparr>"

text \<open>
  \<^verbatim>\<open>
  def delete(self):
      for buf in self.remote_buffers:
          del buf
      self.device_buffers = None
      self._npy_value = None
  \<close>
  \<^verbatim>\<open>del buf\<close> unbinds the loop variable \<open>buf\<close> and nothing else: the list
  \<^verbatim>\<open>self.remote_buffers\<close> is not touched by the loop, which \<open>unbind_each\<close> spells out.
  The first assignment creates the attribute \<^verbatim>\<open>device_buffers\<close>.
\<close>

fun unbind_each :: "'a list \<Rightarrow> unit" where
  "unbind_each [] = ()"
| "unbind_each (buf # rest) = unbind_each rest"

definition delete ::
  "('idx, 'spec, 'val) DistributedArray \<Rightarrow> ('idx, 'spec, 'val) DistributedArray" where
  "delete a =
     (let unbound = unbind_each (remote_buffers a)
      in a\<lparr>device_buffers := Some PyNone, npy_value := None\<rparr>)"





section \<open>Replicated distributed array values\<close>

text \<open>
  A Python \<^verbatim>\<open>dict\<close> keeps its keys in insertion order, and \<^verbatim>\<open>list(d.values())[0]\<close>
  depends on that order: the model is an association list with one entry per key.
  Assigning to a key that is present replaces the value where it stands; a new key goes
  to the end.
\<close>

type_synonym ('k, 'v) dict = "('k \<times> 'v) list"

fun dict_setitem :: "'k \<Rightarrow> 'v \<Rightarrow> ('k, 'v) dict \<Rightarrow> ('k, 'v) dict" where
  "dict_setitem k v [] = [(k, v)]"
| "dict_setitem k v ((k', v') # rest) =
     (if k' = k then (k, v) # rest else (k', v') # dict_setitem k v rest)"

definition dict_contains :: "('k, 'v) dict \<Rightarrow> 'k \<Rightarrow> bool" where
  "dict_contains d k = (map_of d k \<noteq> None)"

text \<open>
  The attributes of a \<^verbatim>\<open>ReplicatedDistributedArray\<close>. Neither \<^verbatim>\<open>PhysicalDeviceMesh\<close>
  nor \<^verbatim>\<open>DistributedArray\<close> defines \<^verbatim>\<open>__hash__\<close> or \<^verbatim>\<open>__eq__\<close>, so the keys of both
  dicts are object identities: a \<open>mesh_ref\<close> for a mesh, the \<open>array_id\<close> for an array.
\<close>

record ('idx, 'spec, 'val) ReplicatedDistributedArray =
  mesh_array_map :: "(mesh_ref, ('idx, 'spec, 'val) DistributedArray) dict"
  array_mesh_map :: "(nat, mesh_ref) dict"
  replicated_aval :: ShapedArray

text \<open>
  \<^verbatim>\<open>
  def __init__(self, device_meshes, arrays):
      self._mesh_array_map = dict()
      self._array_mesh_map = dict()
      for mesh, array in zip(device_meshes, arrays):
          self._mesh_array_map[mesh] = array
          self._array_mesh_map[array] = mesh
      self.aval = self.replica.aval

  @property
  def replica(self):
      return list(self._mesh_array_map.values())[0]
  \<close>
\<close>

fun fill_maps ::
  "(mesh_ref \<times> ('idx, 'spec, 'val) DistributedArray) list
     \<Rightarrow> (mesh_ref, ('idx, 'spec, 'val) DistributedArray) dict \<times> (nat, mesh_ref) dict
     \<Rightarrow> (mesh_ref, ('idx, 'spec, 'val) DistributedArray) dict \<times> (nat, mesh_ref) dict" where
  "fill_maps [] maps = maps"
| "fill_maps ((mesh, array) # rest) (mam, amm) =
     fill_maps rest (dict_setitem mesh array mam, dict_setitem (array_id array) mesh amm)"

definition first_value :: "('k, 'v) dict \<Rightarrow> error + 'v" where
  "first_value d = (case d of [] \<Rightarrow> Inl IndexError | (k, v) # rest \<Rightarrow> Inr v)"

definition replica ::
  "('idx, 'spec, 'val) ReplicatedDistributedArray \<Rightarrow> error + ('idx, 'spec, 'val) DistributedArray" where
  "replica r = first_value (mesh_array_map r)"

definition ReplicatedDistributedArray_init ::
  "mesh_ref list \<Rightarrow> ('idx, 'spec, 'val) DistributedArray list
     \<Rightarrow> error + ('idx, 'spec, 'val) ReplicatedDistributedArray" where
  "ReplicatedDistributedArray_init device_meshes arrays =
     (case fill_maps (zip device_meshes arrays) ([], []) of
        (mam, amm) \<Rightarrow>
          (case first_value mam of
             Inl e \<Rightarrow> Inl e
           | Inr a \<Rightarrow>
               Inr \<lparr>mesh_array_map = mam, array_mesh_map = amm, replicated_aval = aval a\<rparr>))"

text \<open>
  \<^verbatim>\<open>
  def is_replicated_on_mesh(self, mesh):
      if mesh in self._mesh_array_map:
          return True
      return False

  def get_replica_on_mesh(self, mesh):
      if not self.is_replicated_on_mesh(mesh):
          raise RuntimeError("No replica found on this mesh.")
      return self._mesh_array_map[mesh]

  def add_replica(self, mesh, array):
      assert isinstance(array, DistributedArray)
      assert isinstance(mesh, PhysicalDeviceMesh)
      if array in self._array_mesh_map:
          raise RuntimeError("Replica exists.")
      if mesh in self._mesh_array_map:
          raise RuntimeError("Mesh exists.")
      self._mesh_array_map.update({mesh: array})
      self._array_mesh_map.update({array: mesh})
  \<close>
  The two \<^verbatim>\<open>isinstance\<close> assertions hold by the types of the model.
\<close>

definition is_replicated_on_mesh ::
  "('idx, 'spec, 'val) ReplicatedDistributedArray \<Rightarrow> mesh_ref \<Rightarrow> bool" where
  "is_replicated_on_mesh r mesh = (if dict_contains (mesh_array_map r) mesh then True else False)"

definition get_replica_on_mesh ::
  "('idx, 'spec, 'val) ReplicatedDistributedArray \<Rightarrow> mesh_ref
     \<Rightarrow> error + ('idx, 'spec, 'val) DistributedArray" where
  "get_replica_on_mesh r mesh =
     (if \<not> is_replicated_on_mesh r mesh then Inl (RuntimeError ''No replica found on this mesh.'')
      else case map_of (mesh_array_map r) mesh of None \<Rightarrow> Inl KeyError | Some a \<Rightarrow> Inr a)"

definition add_replica ::
  "mesh_ref \<Rightarrow> ('idx, 'spec, 'val) DistributedArray \<Rightarrow> ('idx, 'spec, 'val) ReplicatedDistributedArray
     \<Rightarrow> error + ('idx, 'spec, 'val) ReplicatedDistributedArray" where
  "add_replica mesh array r =
     (if dict_contains (array_mesh_map r) (array_id array) then Inl (RuntimeError ''Replica exists.'')
      else if dict_contains (mesh_array_map r) mesh then Inl (RuntimeError ''Mesh exists.'')
      else Inr (r\<lparr>mesh_array_map := dict_setitem mesh array (mesh_array_map r),
                 array_mesh_map := dict_setitem (array_id array) mesh (array_mesh_map r)\<rparr>))"

text \<open>
  The invariant of the specification: every mesh entry is answered by the array entry of
  its replica, and every array entry by the mesh entry of its mesh. With it the two dicts
  are inverses of one another, so no mesh has two replicas and no replica two meshes.
\<close>

definition maps_inverse ::
  "(mesh_ref, ('idx, 'spec, 'val) DistributedArray) dict \<Rightarrow> (nat, mesh_ref) dict \<Rightarrow> bool" where
  "maps_inverse mam amm =
     (list_all (\<lambda>(m, a). map_of amm (array_id a) = Some m) mam
      \<and> list_all (\<lambda>(i, m). map_option array_id (map_of mam m) = Some i) amm)"

definition mutually_inverse :: "('idx, 'spec, 'val) ReplicatedDistributedArray \<Rightarrow> bool" where
  "mutually_inverse r = maps_inverse (mesh_array_map r) (array_mesh_map r)"

section \<open>Device identity strings\<close>

text \<open>
  \<^verbatim>\<open>str(n)\<close> for a Python \<^verbatim>\<open>int\<close>: the decimal digits, most significant first, after a
  minus sign when the number is negative.
\<close>

fun str_nat :: "nat \<Rightarrow> string" where
  "str_nat n =
     (if n < 10 then [''0123456789'' ! n]
      else str_nat (n div 10) @ [''0123456789'' ! (n mod 10)])"

declare str_nat.simps [simp del]

definition str_int :: "int \<Rightarrow> string" where
  "str_int i = (if i < 0 then CHR ''-'' # str_nat (nat (- i)) else str_nat (nat i))"

text \<open>
  \<^verbatim>\<open>
  def device_id_to_str(host_ip, device_id, device_type="gpu"):
      return "{}:{}:{}".format(host_ip, device_type, str(device_id))
  \<close>
  Every call in the file leaves \<^verbatim>\<open>device_type\<close> at its default; the model passes it.
\<close>

definition device_id_to_str :: "string \<Rightarrow> int \<Rightarrow> string \<Rightarrow> string" where
  "device_id_to_str host_ip device_id device_type =
     host_ip @ '':'' @ device_type @ '':'' @ str_int device_id"

section \<open>PhysicalDeviceMesh\<close>

text \<open>
  The argument \<^verbatim>\<open>devices\<close> is a list of XLA device objects for a single-host mesh
  (the code reads their \<^verbatim>\<open>.id\<close>) and a list of lists of device ids, one list per host,
  for a mesh on a Ray cluster. An XLA device is modelled by its \<^verbatim>\<open>id\<close>.
\<close>

datatype devices_list = XlaDevices "int list" | HostDeviceIds "int list list"

text \<open>
  One entry of \<^verbatim>\<open>host_info\<close> is the dict Ray reports for a node; the code reads its
  key \<^verbatim>\<open>"NodeManagerAddress"\<close>, a string.
\<close>

type_synonym node_info = "string \<rightharpoonup> string"

text \<open>
  The attributes of a \<^verbatim>\<open>PhysicalDeviceMesh\<close>. \<^verbatim>\<open>num_devices_per_host\<close> is a device
  count, a natural number. \<open>workers\<close> is \<open>None\<close> until the workers are launched; a
  worker is the handle of a Ray actor, of type \<open>'w\<close>.
\<close>

record 'w PhysicalDeviceMesh =
  use_ray :: bool
  host_ids :: "int list"
  host_info :: "node_info list option"
  head_ip :: "string option"
  num_devices_per_host :: nat
  devices :: devices_list
  device_strs :: "string list"
  workers :: "'w list option"
  launched :: bool

text \<open>
  \<^verbatim>\<open>self.host_info[i]["NodeManagerAddress"]\<close>: \<open>TypeError\<close> when \<^verbatim>\<open>host_info\<close> is
  \<^verbatim>\<open>None\<close>, \<open>IndexError\<close> when the list has no entry \<open>i\<close>, \<open>KeyError\<close> when the entry has
  no such key.
\<close>

definition node_manager_address :: "node_info list option \<Rightarrow> nat \<Rightarrow> error + string" where
  "node_manager_address info i =
     (case info of
        None \<Rightarrow> Inl TypeError
      | Some nodes \<Rightarrow>
          (case list_getitem nodes (int i) of
             Inl e \<Rightarrow> Inl e
           | Inr node \<Rightarrow>
               (case node ''NodeManagerAddress'' of
                  None \<Rightarrow> Inl KeyError
                | Some ip \<Rightarrow> Inr ip)))"

text \<open>
  \<^verbatim>\<open>
  for i, _ in enumerate(self.host_ids):
      ip = self.host_info[i]["NodeManagerAddress"]
      self.device_strs.extend([
          device_id_to_str(ip, i)
          for devices_this_host in self.devices
          for i in devices_this_host
      ])
  \<close>
  The comprehension has its own \<^verbatim>\<open>i\<close>, the device id; it runs over the device lists of
  all hosts, for each host \<open>i\<close> of the outer loop. \<open>extend_device_strs\<close> is the loop from
  host position \<open>i\<close> on, over the remaining host ids.
\<close>

fun extend_device_strs ::
  "node_info list option \<Rightarrow> int list list \<Rightarrow> nat \<Rightarrow> int list \<Rightarrow> string list
     \<Rightarrow> error + string list" where
  "extend_device_strs info devs i [] strs = Inr strs"
| "extend_device_strs info devs i (h # rest) strs =
     (case node_manager_address info i of
        Inl e \<Rightarrow> Inl e
      | Inr ip \<Rightarrow>
          extend_device_strs info devs (Suc i) rest
            (strs @ concat (map (\<lambda>devices_this_host.
                                   map (\<lambda>i. device_id_to_str ip i ''gpu'') devices_this_host)
                             devs)))"

text \<open>
  \<^verbatim>\<open>all(len(ids) == num_devices_per_host for ids in devices)\<close> on a list of lists.
\<close>

definition all_aligned :: "int list list \<Rightarrow> nat \<Rightarrow> bool" where
  "all_aligned devs n = list_all (\<lambda>ids. length ids = n) devs"

text \<open>
  \<^verbatim>\<open>
  if devices is not None:
      if len(devices) != len(host_ids):
          raise RuntimeError("Please specify the gpu IDs used on each host.")
      if not all(len(ids) == num_devices_per_host for ids in devices):
          raise RuntimeError("Devices specified for each host does not align "
                             "with `num_devices_per_host`.")
  else:
      devices = [list(range(num_devices_per_host)) for i, _ in enumerate(host_ids)]
  \<close>
  The message of the second error is the parameter \<open>msg\<close>: the two mesh classes word it
  differently. \<open>hs\<close> is \<^verbatim>\<open>host_ids\<close>, a list. \<^verbatim>\<open>len(ids)\<close> on an XLA device raises
  \<open>TypeError\<close>.
\<close>

definition resolve_devices ::
  "string \<Rightarrow> devices_list option \<Rightarrow> int list \<Rightarrow> nat \<Rightarrow> error + int list list" where
  "resolve_devices msg devices_arg hs n =
     (case devices_arg of
        None \<Rightarrow> Inr (map (\<lambda>_. map int [0..<n]) hs)
      | Some (HostDeviceIds devs) \<Rightarrow>
          (if length devs \<noteq> length hs
           then Inl (RuntimeError ''Please specify the gpu IDs used on each host.'')
           else if \<not> all_aligned devs n then Inl (RuntimeError msg)
           else Inr devs)
      | Some (XlaDevices ds) \<Rightarrow>
          (if length ds \<noteq> length hs
           then Inl (RuntimeError ''Please specify the gpu IDs used on each host.'')
           else if ds = [] then Inr []
           else Inl TypeError))"

text \<open>
  Modelled from the spec: \<^verbatim>\<open>_launch_xla_servers\<close> starts the XLA coordination service
  and one Ray actor per host and waits for them (\<^verbatim>\<open>ray\<close>, \<^verbatim>\<open>xla_client\<close>: not code of
  this repository). The parameter \<open>start_workers\<close> stands for all of that: given the mesh
  it returns the worker handles, one per host, or raises. The function stores them and
  sets the launch flag, as the code does.
\<close>

definition private_launch_xla_servers ::
  "('w PhysicalDeviceMesh \<Rightarrow> error + 'w list) \<Rightarrow> 'w PhysicalDeviceMesh
     \<Rightarrow> error + 'w PhysicalDeviceMesh" where
  "private_launch_xla_servers start_workers self =
     (case start_workers self of
        Inl e \<Rightarrow> Inl e
      | Inr ws \<Rightarrow> Inr (self\<lparr>workers := Some ws, launched := True\<rparr>))"

text \<open>
  \<^verbatim>\<open>PhysicalDeviceMesh.__init__(devices, host_ids, host_info, head_ip,
  num_devices_per_host, use_ray)\<close>.

  Without Ray: \<^verbatim>\<open>not devices\<close> holds for \<^verbatim>\<open>None\<close> and for an empty list; the mesh has
  the one host \<open>0\<close> at \<^verbatim>\<open>127.0.0.1\<close>, one device string per device and
  \<^verbatim>\<open>num_devices_per_host = len(devices)\<close>. \<^verbatim>\<open>d.id\<close> on a list of ids raises
  \<open>AttributeError\<close>.

  With Ray: \<^verbatim>\<open>len(host_ids)\<close> or \<^verbatim>\<open>enumerate(host_ids)\<close>, whichever comes first,
  raises \<open>TypeError\<close> when \<^verbatim>\<open>host_ids\<close> is \<^verbatim>\<open>None\<close>; the device lists are resolved as
  above, the device strings are built by the loop over the hosts, and the workers are
  launched last.
\<close>

definition PhysicalDeviceMesh_init ::
  "('w PhysicalDeviceMesh \<Rightarrow> error + 'w list)
     \<Rightarrow> devices_list option \<Rightarrow> int list option \<Rightarrow> node_info list option \<Rightarrow> string option
     \<Rightarrow> nat \<Rightarrow> bool \<Rightarrow> error + 'w PhysicalDeviceMesh" where
  "PhysicalDeviceMesh_init start_workers devices_arg host_ids_arg host_info_arg head_ip_arg
       num_devices_per_host_arg use_ray_arg =
     (if \<not> use_ray_arg then
        (case devices_arg of
           None \<Rightarrow> Inl (RuntimeError ''`devices` are required for single-host device mesh.'')
         | Some (XlaDevices []) \<Rightarrow>
             Inl (RuntimeError ''`devices` are required for single-host device mesh.'')
         | Some (HostDeviceIds []) \<Rightarrow>
             Inl (RuntimeError ''`devices` are required for single-host device mesh.'')
         | Some (HostDeviceIds (ids # rest)) \<Rightarrow> Inl AttributeError
         | Some (XlaDevices (d # ds)) \<Rightarrow>
             Inr \<lparr>use_ray = False, host_ids = [0], host_info = None,
                  head_ip = Some ''127.0.0.1'', num_devices_per_host = length (d # ds),
                  devices = XlaDevices (d # ds),
                  device_strs = map (\<lambda>id. device_id_to_str ''127.0.0.1'' id ''gpu'') (d # ds),
                  workers = None, launched = False\<rparr>)
      else
        (case host_ids_arg of
           None \<Rightarrow> Inl TypeError
         | Some hs \<Rightarrow>
             (case resolve_devices
                     (''Devices specified for each host does not align ''
                        @ ''with `num_devices_per_host`.'')
                     devices_arg hs num_devices_per_host_arg of
                Inl e \<Rightarrow> Inl e
              | Inr devs \<Rightarrow>
                  (case extend_device_strs host_info_arg devs 0 hs [] of
                     Inl e \<Rightarrow> Inl e
                   | Inr strs \<Rightarrow>
                       private_launch_xla_servers start_workers
                         \<lparr>use_ray = True, host_ids = hs,
                          host_info = host_info_arg, head_ip = head_ip_arg,
                          num_devices_per_host = num_devices_per_host_arg,
                          devices = HostDeviceIds devs, device_strs = strs,
                          workers = None, launched = False\<rparr>))))"

text \<open>
  \<^verbatim>\<open>
  @property
  def shape(self):           return (len(self.host_ids), self.num_devices_per_host)
  @property
  def num_hosts(self):       return len(self.host_ids)
  @property
  def device_ids(self):      return [self.devices] if not self.use_ray else self.devices
  @property
  def device_ids_flat(self): return [id for ids_this_host in self.device_ids
                                        for id in ids_this_host]
  @property
  def num_devices(self):     return len(self.device_ids_flat)
  @property
  def is_distributed(self):  return not (self.num_hosts == 1 and not self.use_ray)
  \<close>
  \<open>num_devices\<close> is the length of \<^verbatim>\<open>device_ids_flat\<close>: without Ray the flat list is
  \<^verbatim>\<open>self.devices\<close> itself; with Ray it is the concatenation of the per-host lists, and
  iterating an XLA device raises \<open>TypeError\<close>.
\<close>

definition mesh_shape_of :: "'w PhysicalDeviceMesh \<Rightarrow> nat \<times> nat" where
  "mesh_shape_of self = (length (host_ids self), num_devices_per_host self)"

definition num_hosts :: "'w PhysicalDeviceMesh \<Rightarrow> nat" where
  "num_hosts self = length (host_ids self)"

definition num_devices :: "'w PhysicalDeviceMesh \<Rightarrow> error + nat" where
  "num_devices self =
     (if \<not> use_ray self then
        (case devices self of
           XlaDevices ds \<Rightarrow> Inr (length ds)
         | HostDeviceIds devs \<Rightarrow> Inr (length devs))
      else
        (case devices self of
           HostDeviceIds devs \<Rightarrow> Inr (length (concat devs))
         | XlaDevices ds \<Rightarrow> (if ds = [] then Inr 0 else Inl TypeError)))"

definition is_distributed :: "'w PhysicalDeviceMesh \<Rightarrow> bool" where
  "is_distributed self = (\<not> (num_hosts self = 1 \<and> \<not> use_ray self))"

section \<open>Logical meshes and the communication cost model\<close>

text \<open>
  A two-dimensional \<^verbatim>\<open>numpy\<close> array of non-negative integers: its shape and its
  elements in row-major order. Every mesh shape the file passes to
  \<^verbatim>\<open>get_logical_mesh\<close> is a pair, and the tree model reads \<^verbatim>\<open>mesh_shape[0]\<close> and
  \<^verbatim>\<open>mesh_shape[1]\<close>; the model takes mesh shapes to be pairs of natural numbers.
\<close>

record ndarray =
  nd_shape :: "nat \<times> nat"
  nd_flat :: "nat list"

text \<open>
  \<^verbatim>\<open>a.reshape(mesh_shape)\<close> keeps the elements in row-major order and raises
  \<open>ValueError\<close> when the sizes differ.
\<close>

definition reshape :: "nat list \<Rightarrow> nat \<times> nat \<Rightarrow> error + ndarray" where
  "reshape flat mesh_shape =
     (if fst mesh_shape * snd mesh_shape = length flat
      then Inr \<lparr>nd_shape = mesh_shape, nd_flat = flat\<rparr>
      else Inl ValueError)"

text \<open>\<^verbatim>\<open>np.arange(n)\<close>, flat.\<close>

definition arange :: "nat \<Rightarrow> nat list" where
  "arange n = [0..<n]"

text \<open>
  \<^verbatim>\<open>np.tile(np.arange(num_hosts).reshape(-1, 1), num_devices_per_host)\<close>, flat: row
  \<open>h\<close> of the tiled array holds \<open>h\<close> in each of its \<^verbatim>\<open>num_devices_per_host\<close> columns.
\<close>

definition tile_host_column :: "nat \<Rightarrow> nat \<Rightarrow> nat list" where
  "tile_host_column hosts per_host = concat (map (\<lambda>h. replicate per_host h) (arange hosts))"

text \<open>
  \<^verbatim>\<open>a[i][j]\<close>. The loops below run \<open>i\<close> and \<open>j\<close> over the array's own shape, where the
  subscripts are in range.
\<close>

definition getitem2 :: "ndarray \<Rightarrow> nat \<Rightarrow> nat \<Rightarrow> nat" where
  "getitem2 a i j = nd_flat a ! (i * snd (nd_shape a) + j)"

text \<open>
  Modelled from the spec: \<^verbatim>\<open>LogicalDeviceMesh\<close> is a class of
  \<^verbatim>\<open>alpa/shard_parallel/auto_sharding.py\<close>, which is not among the sources. The
  specification describes it as the reshaped device-id grid of a mesh together with the
  per-axis coefficients \<open>alpha\<close> and \<open>beta\<close>; the record holds the four arguments the
  constructor is called with. The coefficients are rational numbers: the literals
  \<^verbatim>\<open>0.01\<close> and \<^verbatim>\<open>0.1\<close> denote \<open>1/100\<close> and \<open>1/10\<close>, and \<^verbatim>\<open>/\<close> is exact division
  (floating-point rounding is not modelled). An argument is \<open>None\<close> when the code passes
  \<^verbatim>\<open>None\<close>.
\<close>

record 'm LogicalDeviceMesh =
  physical_mesh :: 'm
  id_mesh :: ndarray
  mesh_alpha :: "rat list option"
  mesh_beta :: "rat list option"

text \<open>
  \<^verbatim>\<open>x or (1,) * len(mesh_shape)\<close>: \<^verbatim>\<open>None\<close> and the empty sequence are false.
\<close>

definition or_ones :: "rat list option \<Rightarrow> nat \<Rightarrow> rat list" where
  "or_ones x n = (case x of None \<Rightarrow> replicate n 1 | Some [] \<Rightarrow> replicate n 1 | Some (v # vs) \<Rightarrow> v # vs)"

text \<open>
  The body of the two counting loops, on the dict \<^verbatim>\<open>host_link_ct = defaultdict(int)\<close>
  (a function that is \<open>0\<close> where the dict has no key):
  \<^verbatim>\<open>
  if left != right:
      if left > right:
          left, right = right, left
      host_link_ct[(left, right)] += 1
  \<close>
\<close>

definition add_link :: "nat \<Rightarrow> nat \<Rightarrow> (nat \<times> nat \<Rightarrow> nat) \<Rightarrow> (nat \<times> nat \<Rightarrow> nat)" where
  "add_link left right host_link_ct =
     (if left \<noteq> right then
        (if left > right
         then host_link_ct((right, left) := host_link_ct (right, left) + 1)
         else host_link_ct((left, right) := host_link_ct (left, right) + 1))
      else host_link_ct)"

text \<open>
  \<^verbatim>\<open>
  host_link_ct = defaultdict(int)
  for j in range(mesh_shape[1]):
      for i in range(mesh_shape[0]):
          left = host_ids[i][j]
          right = host_ids[(i + 1) % mesh_shape[0]][j]
          ...
  \<close>
  and, for dimension 1,
  \<^verbatim>\<open>
  host_link_ct = defaultdict(int)
  for i in range(mesh_shape[0]):
      for j in range(mesh_shape[1]):
          left = host_ids[i][j]
          right = host_ids[i][(j + 1) % mesh_shape[1]]
          ...
  \<close>
\<close>

definition count_links_dim0 :: "ndarray \<Rightarrow> nat \<times> nat \<Rightarrow> (nat \<times> nat \<Rightarrow> nat)" where
  "count_links_dim0 host_grid mesh_shape =
     fold (\<lambda>j. fold (\<lambda>i. add_link (getitem2 host_grid i j)
                                    (getitem2 host_grid ((i + 1) mod fst mesh_shape) j))
                     [0..<fst mesh_shape])
       [0..<snd mesh_shape] (\<lambda>_. 0)"

definition count_links_dim1 :: "ndarray \<Rightarrow> nat \<times> nat \<Rightarrow> (nat \<times> nat \<Rightarrow> nat)" where
  "count_links_dim1 host_grid mesh_shape =
     fold (\<lambda>i. fold (\<lambda>j. add_link (getitem2 host_grid i j)
                                    (getitem2 host_grid i ((j + 1) mod snd mesh_shape)))
                     [0..<snd mesh_shape])
       [0..<fst mesh_shape] (\<lambda>_. 0)"

text \<open>
  The body of the two bandwidth loops:
  \<^verbatim>\<open>
  if left != right:
      if left > right:
          left, right = right, left
      bandwidth = min(bandwidth,
                      inter_host_bandwidth / host_link_ct[(left, right)])
  \<close>
  The division raises \<open>TypeError\<close> when \<^verbatim>\<open>inter_host_bandwidth\<close> is \<^verbatim>\<open>None\<close> and
  \<open>ZeroDivisionError\<close> when the count is \<open>0\<close>; \<^verbatim>\<open>min\<close> raises \<open>TypeError\<close> when
  \<^verbatim>\<open>bandwidth\<close> is \<^verbatim>\<open>None\<close>.
\<close>

definition narrow ::
  "rat option \<Rightarrow> (nat \<times> nat \<Rightarrow> nat) \<Rightarrow> nat \<Rightarrow> nat \<Rightarrow> rat option \<Rightarrow> error + rat option" where
  "narrow inter_host_bandwidth host_link_ct left right bandwidth =
     (if left \<noteq> right then
        (case inter_host_bandwidth of
           None \<Rightarrow> Inl TypeError
         | Some inter_bw \<Rightarrow>
             (let ct = (if left > right then host_link_ct (right, left)
                        else host_link_ct (left, right)) in
              if ct = 0 then Inl ZeroDivisionError
              else (case bandwidth of
                      None \<Rightarrow> Inl TypeError
                    | Some b \<Rightarrow> Inr (Some (min b (inter_bw / of_nat ct))))))
      else Inr bandwidth)"

text \<open>A \<^verbatim>\<open>for\<close> loop whose body may raise: the first error ends it.\<close>

fun for_each :: "('a \<Rightarrow> 's \<Rightarrow> error + 's) \<Rightarrow> 'a list \<Rightarrow> 's \<Rightarrow> error + 's" where
  "for_each body [] s = Inr s"
| "for_each body (x # xs) s =
     (case body x s of Inl e \<Rightarrow> Inl e | Inr s' \<Rightarrow> for_each body xs s')"

text \<open>
  \<^verbatim>\<open>
  j = 0
  bandwidth = intra_host_bandwidth
  for i in range(mesh_shape[0]):
      left = host_ids[i][j]
      right = host_ids[(i + 1) % mesh_shape[0]][j]
      ...
  mesh_beta[0] = 1 / bandwidth
  \<close>
  and the same for dimension 1 with \<^verbatim>\<open>i = 0\<close> and \<open>j\<close> running. The local array
  \<^verbatim>\<open>host_ids\<close> of the code is \<open>host_grid\<close> here.
\<close>

definition bandwidth_dim0 ::
  "ndarray \<Rightarrow> nat \<times> nat \<Rightarrow> rat option \<Rightarrow> rat option \<Rightarrow> (nat \<times> nat \<Rightarrow> nat)
     \<Rightarrow> error + rat option" where
  "bandwidth_dim0 host_grid mesh_shape intra_host_bandwidth inter_host_bandwidth host_link_ct =
     for_each (\<lambda>i. narrow inter_host_bandwidth host_link_ct
                      (getitem2 host_grid i 0) (getitem2 host_grid ((i + 1) mod fst mesh_shape) 0))
       [0..<fst mesh_shape] intra_host_bandwidth"

definition bandwidth_dim1 ::
  "ndarray \<Rightarrow> nat \<times> nat \<Rightarrow> rat option \<Rightarrow> rat option \<Rightarrow> (nat \<times> nat \<Rightarrow> nat)
     \<Rightarrow> error + rat option" where
  "bandwidth_dim1 host_grid mesh_shape intra_host_bandwidth inter_host_bandwidth host_link_ct =
     for_each (\<lambda>j. narrow inter_host_bandwidth host_link_ct
                      (getitem2 host_grid 0 j) (getitem2 host_grid 0 ((j + 1) mod snd mesh_shape)))
       [0..<snd mesh_shape] intra_host_bandwidth"

text \<open>
  \<^verbatim>\<open>1 / bandwidth\<close>: \<open>TypeError\<close> on \<^verbatim>\<open>None\<close>, \<open>ZeroDivisionError\<close> on zero.
\<close>

definition reciprocal :: "rat option \<Rightarrow> error + rat" where
  "reciprocal bandwidth =
     (case bandwidth of
        None \<Rightarrow> Inl TypeError
      | Some b \<Rightarrow> (if b = 0 then Inl ZeroDivisionError else Inr (1 / b)))"

text \<open>
  The branch \<^verbatim>\<open>mesh_topology == "tree"\<close> of \<^verbatim>\<open>get_logical_mesh\<close>, after the two
  assertions: it returns \<^verbatim>\<open>mesh_beta\<close>.
\<close>

definition tree_beta ::
  "nat \<Rightarrow> nat \<Rightarrow> nat \<times> nat \<Rightarrow> rat option \<Rightarrow> rat option \<Rightarrow> error + rat list" where
  "tree_beta hosts per_host mesh_shape intra_host_bandwidth inter_host_bandwidth =
     (case reshape (tile_host_column hosts per_host) mesh_shape of
        Inl e \<Rightarrow> Inl e
      | Inr host_grid \<Rightarrow>
          (case bandwidth_dim0 host_grid mesh_shape intra_host_bandwidth inter_host_bandwidth
                  (count_links_dim0 host_grid mesh_shape) of
             Inl e \<Rightarrow> Inl e
           | Inr bandwidth0 \<Rightarrow>
               (case reciprocal bandwidth0 of
                  Inl e \<Rightarrow> Inl e
                | Inr beta0 \<Rightarrow>
                    (case bandwidth_dim1 host_grid mesh_shape intra_host_bandwidth
                            inter_host_bandwidth (count_links_dim1 host_grid mesh_shape) of
                       Inl e \<Rightarrow> Inl e
                     | Inr bandwidth1 \<Rightarrow>
                         (case reciprocal bandwidth1 of
                            Inl e \<Rightarrow> Inl e
                          | Inr beta1 \<Rightarrow> Inr [beta0, beta1])))))"

text \<open>
  \<^verbatim>\<open>
  def get_logical_mesh(self, mesh_shape, mesh_alpha=None, mesh_beta=None,
                       mesh_topology=None, intra_host_bandwidth=None,
                       inter_host_bandwidth=None):
      id_mesh = np.arange(self.num_devices).reshape(mesh_shape)
      if mesh_topology is None:
          mesh_alpha = mesh_alpha or (1,) * len(mesh_shape)
          mesh_beta = mesh_beta or (1,) * len(mesh_shape)
      elif mesh_topology == "tree":
          assert mesh_alpha is None
          assert mesh_beta is None
          mesh_alpha = [1] * 2
          mesh_beta = [None] * 2
          ...
      return LogicalDeviceMesh(self, id_mesh, mesh_alpha, mesh_beta)
  \<close>
  With any other topology the coefficients are passed on as they came.
\<close>

definition get_logical_mesh ::
  "'w PhysicalDeviceMesh \<Rightarrow> nat \<times> nat \<Rightarrow> rat list option \<Rightarrow> rat list option \<Rightarrow> string option
     \<Rightarrow> rat option \<Rightarrow> rat option \<Rightarrow> error + 'w PhysicalDeviceMesh LogicalDeviceMesh" where
  "get_logical_mesh self mesh_shape mesh_alpha_arg mesh_beta_arg mesh_topology
       intra_host_bandwidth inter_host_bandwidth =
     (case num_devices self of
        Inl e \<Rightarrow> Inl e
      | Inr n \<Rightarrow>
          (case reshape (arange n) mesh_shape of
             Inl e \<Rightarrow> Inl e
           | Inr ids \<Rightarrow>
               (case mesh_topology of
                  None \<Rightarrow>
                    Inr \<lparr>physical_mesh = self, id_mesh = ids,
                         mesh_alpha = Some (or_ones mesh_alpha_arg 2),
                         mesh_beta = Some (or_ones mesh_beta_arg 2)\<rparr>
                | Some topology \<Rightarrow>
                    (if topology = ''tree'' then
                       (if mesh_alpha_arg \<noteq> None then Inl AssertionError
                        else if mesh_beta_arg \<noteq> None then Inl AssertionError
                        else
                          (case tree_beta (num_hosts self) (num_devices_per_host self) mesh_shape
                                  intra_host_bandwidth inter_host_bandwidth of
                             Inl e \<Rightarrow> Inl e
                           | Inr beta \<Rightarrow>
                               Inr \<lparr>physical_mesh = self, id_mesh = ids,
                                    mesh_alpha = Some [1, 1], mesh_beta = Some beta\<rparr>))
                     else
                       Inr \<lparr>physical_mesh = self, id_mesh = ids,
                            mesh_alpha = mesh_alpha_arg, mesh_beta = mesh_beta_arg\<rparr>))))"

text \<open>
  \<^verbatim>\<open>
  def get_default_logical_mesh(self):
      if self.num_hosts == 1:
          return self.get_logical_mesh(
              (self.num_hosts, self.num_devices_per_host), [1, 1], [1, 1])
      else:
          return self.get_logical_mesh(
              (self.num_hosts, self.num_devices_per_host), [1, 1], [1, 0.01])
  \<close>
\<close>

definition get_default_logical_mesh ::
  "'w PhysicalDeviceMesh \<Rightarrow> error + 'w PhysicalDeviceMesh LogicalDeviceMesh" where
  "get_default_logical_mesh self =
     (if num_hosts self = 1
      then get_logical_mesh self (num_hosts self, num_devices_per_host self)
             (Some [1, 1]) (Some [1, 1]) None None None
      else get_logical_mesh self (num_hosts self, num_devices_per_host self)
             (Some [1, 1]) (Some [1, 0.01]) None None None)"

section \<open>VirtualPhysicalMesh\<close>

text \<open>
  The attributes of a \<^verbatim>\<open>VirtualPhysicalMesh\<close>; the fields carry the prefix \<open>v_\<close> to keep
  them apart from those of \<^verbatim>\<open>PhysicalDeviceMesh\<close>. \<^verbatim>\<open>devices\<close> is a list of lists (or
  ranges) of device ids, one per host.
\<close>

record VirtualPhysicalMesh =
  v_host_ids :: "int list"
  v_host_info :: "node_info list option"
  v_head_ip :: "string option"
  v_num_devices_per_host :: nat
  v_devices :: "int list list"
  v_device_strs :: "string list"

text \<open>
  \<^verbatim>\<open>VirtualPhysicalMesh.__init__(host_ids, host_info, head_ip, num_devices_per_host,
  devices)\<close>: the device lists are checked or made up as in \<^verbatim>\<open>PhysicalDeviceMesh\<close>
  (with its own wording of the second error), then the device strings are built by the
  same loop over the hosts. \<^verbatim>\<open>len(host_ids)\<close> or \<^verbatim>\<open>for _ in host_ids\<close> raises
  \<open>TypeError\<close> when \<^verbatim>\<open>host_ids\<close> is \<^verbatim>\<open>None\<close>.
\<close>

definition VirtualPhysicalMesh_init ::
  "int list option \<Rightarrow> node_info list option \<Rightarrow> string option \<Rightarrow> nat \<Rightarrow> int list list option
     \<Rightarrow> error + VirtualPhysicalMesh" where
  "VirtualPhysicalMesh_init host_ids_arg host_info_arg head_ip_arg num_devices_per_host_arg
       devices_arg =
     (case host_ids_arg of
        None \<Rightarrow> Inl TypeError
      | Some hs \<Rightarrow>
          (case resolve_devices
                  (''Device IDs specified for each host does not align ''
                     @ ''with `num_devices_per_host`.'')
                  (map_option HostDeviceIds devices_arg) hs num_devices_per_host_arg of
             Inl e \<Rightarrow> Inl e
           | Inr devs \<Rightarrow>
               (case extend_device_strs host_info_arg devs 0 hs [] of
                  Inl e \<Rightarrow> Inl e
                | Inr strs \<Rightarrow>
                    Inr \<lparr>v_host_ids = hs, v_host_info = host_info_arg, v_head_ip = head_ip_arg,
                         v_num_devices_per_host = num_devices_per_host_arg,
                         v_devices = devs, v_device_strs = strs\<rparr>)))"

text \<open>
  A list comprehension \<^verbatim>\<open>[xs[x] for x in indices]\<close>; the first bad subscript raises.
\<close>

fun getitems :: "'a list \<Rightarrow> int list \<Rightarrow> error + 'a list" where
  "getitems xs [] = Inr []"
| "getitems xs (x # rest) =
     (case list_getitem xs x of
        Inl e \<Rightarrow> Inl e
      | Inr v \<Rightarrow> (case getitems xs rest of Inl e \<Rightarrow> Inl e | Inr vs \<Rightarrow> Inr (v # vs)))"

text \<open>
  \<^verbatim>\<open>
  def slice_2d(self, host_indices, device_indices):
      host_ids = [self.host_ids[x] for x in host_indices]
      host_info = [self.host_info[x] for x in host_indices]
      return VirtualPhysicalMesh(host_ids=host_ids,
                                 host_info=host_info,
                                 head_ip=self.head_ip,
                                 num_devices_per_host=len(device_indices[0]),
                                 devices=device_indices)
  \<close>
  \<^verbatim>\<open>self.host_info[x]\<close> raises \<open>TypeError\<close> when \<^verbatim>\<open>host_info\<close> is \<^verbatim>\<open>None\<close> (and there is
  an \<open>x\<close>); \<^verbatim>\<open>device_indices[0]\<close> raises \<open>IndexError\<close> on an empty list.
\<close>

definition slice_2d ::
  "VirtualPhysicalMesh \<Rightarrow> int list \<Rightarrow> int list list \<Rightarrow> error + VirtualPhysicalMesh" where
  "slice_2d self host_indices device_indices =
     (case getitems (v_host_ids self) host_indices of
        Inl e \<Rightarrow> Inl e
      | Inr hs \<Rightarrow>
          (case (case v_host_info self of
                   None \<Rightarrow> (if host_indices = [] then Inr [] else Inl TypeError)
                 | Some nodes \<Rightarrow> getitems nodes host_indices) of
             Inl e \<Rightarrow> Inl e
           | Inr info \<Rightarrow>
               (case list_getitem device_indices 0 of
                  Inl e \<Rightarrow> Inl e
                | Inr first \<Rightarrow>
                    VirtualPhysicalMesh_init (Some hs) (Some info) (v_head_ip self)
                      (length first) (Some device_indices))))"

text \<open>A loop that appends one result per element; the first error ends it.\<close>

fun collect :: "('a \<Rightarrow> error + 'b) \<Rightarrow> 'a list \<Rightarrow> error + 'b list" where
  "collect f [] = Inr []"
| "collect f (x # xs) =
     (case f x of
        Inl e \<Rightarrow> Inl e
      | Inr y \<Rightarrow> (case collect f xs of Inl e \<Rightarrow> Inl e | Inr ys \<Rightarrow> Inr (y # ys)))"

text \<open>
  \<^verbatim>\<open>
  def slice_profiling_submeshes(self, submesh_num_hosts, submesh_num_devices_per_host):
      num_hosts = len(self.host_ids)
      num_devices_per_host = self.num_devices_per_host
      num_host_submeshes = num_hosts // submesh_num_hosts
      num_device_submeshes = num_devices_per_host // submesh_num_devices_per_host
      all_submeshes = []
      for i in range(num_host_submeshes):
          for j in range(num_device_submeshes):
              host_indices = range(i * submesh_num_hosts, (i + 1) * submesh_num_hosts)
              device_indices = [
                  range(j * submesh_num_devices_per_host,
                        (j + 1) * submesh_num_devices_per_host)
                  for _ in host_indices
              ]
              all_submeshes.append(self.slice_2d(host_indices, device_indices))
      return all_submeshes
  \<close>
  The two sizes are natural numbers; \<^verbatim>\<open>//\<close> raises \<open>ZeroDivisionError\<close> on a zero
  divisor. \<open>submesh_at\<close> is the body of the inner loop; the two loops visit the pairs
  \<open>(i, j)\<close> with \<open>i\<close> outermost.
\<close>

definition submesh_at ::
  "VirtualPhysicalMesh \<Rightarrow> nat \<Rightarrow> nat \<Rightarrow> nat \<times> nat \<Rightarrow> error + VirtualPhysicalMesh" where
  "submesh_at self submesh_num_hosts submesh_num_devices_per_host ij =
     (let i = fst ij; j = snd ij;
          host_indices = map int [i * submesh_num_hosts..<(i + 1) * submesh_num_hosts];
          device_indices =
            map (\<lambda>_. map int [j * submesh_num_devices_per_host
                                  ..<(j + 1) * submesh_num_devices_per_host])
              host_indices
      in slice_2d self host_indices device_indices)"

definition slice_profiling_submeshes ::
  "VirtualPhysicalMesh \<Rightarrow> nat \<Rightarrow> nat \<Rightarrow> error + VirtualPhysicalMesh list" where
  "slice_profiling_submeshes self submesh_num_hosts submesh_num_devices_per_host =
     (if submesh_num_hosts = 0 then Inl ZeroDivisionError
      else if submesh_num_devices_per_host = 0 then Inl ZeroDivisionError
      else
        (let num_host_submeshes = length (v_host_ids self) div submesh_num_hosts;
             num_device_submeshes = v_num_devices_per_host self div submesh_num_devices_per_host
         in collect (submesh_at self submesh_num_hosts submesh_num_devices_per_host)
              (concat (map (\<lambda>i. map (\<lambda>j. (i, j)) [0..<num_device_submeshes])
                         [0..<num_host_submeshes]))))"

text \<open>
  \<^verbatim>\<open>
  @property
  def shape(self):       return (len(self.host_ids), self.num_devices_per_host)
  @property
  def num_hosts(self):   return len(self.host_ids)
  @property
  def num_devices(self): return len(self.device_ids_flat)
  \<close>
  where \<^verbatim>\<open>device_ids_flat\<close> concatenates the per-host lists of \<^verbatim>\<open>self.devices\<close>.
\<close>

definition v_shape :: "VirtualPhysicalMesh \<Rightarrow> nat \<times> nat" where
  "v_shape self = (length (v_host_ids self), v_num_devices_per_host self)"

definition v_num_hosts :: "VirtualPhysicalMesh \<Rightarrow> nat" where
  "v_num_hosts self = length (v_host_ids self)"

definition v_num_devices :: "VirtualPhysicalMesh \<Rightarrow> nat" where
  "v_num_devices self = length (concat (v_devices self))"

text \<open>
  \<^verbatim>\<open>
  def get_logical_mesh(self, mesh_shape, mesh_alpha=None, mesh_beta=None):
      id_mesh = np.arange(self.num_devices).reshape(mesh_shape)
      mesh_alpha = mesh_alpha or (1.0,) * len(mesh_shape)
      mesh_beta = mesh_beta or (1.0,) * len(mesh_shape)
      return LogicalDeviceMesh(self, id_mesh, mesh_alpha, mesh_beta)

  def get_default_logical_mesh(self):
      if self.num_hosts == 1:
          return self.get_logical_mesh(
              (self.num_hosts, self.num_devices_per_host), [1, 1], [1, 1])
      else:
          return self.get_logical_mesh(
              (self.num_hosts, self.num_devices_per_host), [1, 1], [1, 0.1])
  \<close>
\<close>

definition v_get_logical_mesh ::
  "VirtualPhysicalMesh \<Rightarrow> nat \<times> nat \<Rightarrow> rat list option \<Rightarrow> rat list option
     \<Rightarrow> error + VirtualPhysicalMesh LogicalDeviceMesh" where
  "v_get_logical_mesh self mesh_shape mesh_alpha_arg mesh_beta_arg =
     (case reshape (arange (v_num_devices self)) mesh_shape of
        Inl e \<Rightarrow> Inl e
      | Inr ids \<Rightarrow>
          Inr \<lparr>physical_mesh = self, id_mesh = ids,
               mesh_alpha = Some (or_ones mesh_alpha_arg 2),
               mesh_beta = Some (or_ones mesh_beta_arg 2)\<rparr>)"

definition v_get_default_logical_mesh ::
  "VirtualPhysicalMesh \<Rightarrow> error + VirtualPhysicalMesh LogicalDeviceMesh" where
  "v_get_default_logical_mesh self =
     (if v_num_hosts self = 1
      then v_get_logical_mesh self (v_num_hosts self, v_num_devices_per_host self)
             (Some [1, 1]) (Some [1, 1])
      else v_get_logical_mesh self (v_num_hosts self, v_num_devices_per_host self)
             (Some [1, 1]) (Some [1, 0.1]))"

section \<open>Properties of the worker's buffer map\<close>

lemma restrict_upd_None: "(bs(u := None)) |` A = bs |` (A - {u})"
  by (rule ext) (simp add: restrict_map_def)

lemma delete_each_stops:
  "k < length us \<Longrightarrow> (\<forall>j<k. us ! j \<in> dom bs - set (take j us))
     \<Longrightarrow> us ! k \<notin> dom bs - set (take k us)
     \<Longrightarrow> delete_each us bs = (Inl KeyError, bs |` (- set (take k us)))"
proof (induction us arbitrary: k bs)
  case Nil
  then show ?case by simp
next
  case (Cons u us)
  show ?case
  proof (cases k)
    case 0
    with Cons.prems show ?thesis by (auto simp: domIff)
  next
    case (Suc k')
    from Cons.prems(2) Suc have here: "u \<in> dom bs" by force
    then obtain b where b: "bs u = Some b" by auto
    let ?bs = "bs(u := None)"
    have k': "k' < length us" using Cons.prems(1) Suc by simp
    have before: "\<forall>j<k'. us ! j \<in> dom ?bs - set (take j us)"
    proof (intro allI impI)
      fix j assume "j < k'"
      then have "Suc j < k" using Suc by simp
      with Cons.prems(2) have "(u # us) ! Suc j \<in> dom bs - set (take (Suc j) (u # us))" by blast
      then show "us ! j \<in> dom ?bs - set (take j us)" by auto
    qed
    have at: "us ! k' \<notin> dom ?bs - set (take k' us)"
      using Cons.prems(3) Suc by auto
    have "delete_each us ?bs = (Inl KeyError, ?bs |` (- set (take k' us)))"
      by (rule Cons.IH [OF k' before at])
    moreover have "?bs |` (- set (take k' us)) = bs |` (- set (take k (u # us)))"
      unfolding restrict_upd_None Suc by (rule arg_cong [where f = "\<lambda>A. bs |` A"]) auto
    ultimately show ?thesis using b by simp
  qed
qed

lemma delete_each_ok_absent:
  "delete_each us bs = (Inr (), bs') \<Longrightarrow> bs' = bs |` (- set us) \<and> set us \<subseteq> dom bs"
proof (induction us arbitrary: bs)
  case Nil then show ?case by simp
next
  case (Cons u us)
  from Cons.prems obtain b where b: "bs u = Some b" and r: "delete_each us (bs(u := None)) = (Inr (), bs')"
    by (auto split: option.splits)
  note ih = Cons.IH [OF r]
  have eq: "bs' = (bs(u := None)) |` (- set us)" by (rule conjunct1 [OF ih])
  have sub: "set us \<subseteq> dom (bs(u := None))" by (rule conjunct2 [OF ih])
  have "- set us - {u} = - set (u # us)" by auto
  with eq have "bs' = bs |` (- set (u # us))" unfolding restrict_upd_None by simp
  moreover have "set (u # us) \<subseteq> dom bs" using sub b by (auto split: if_splits)
  ultimately show ?case by simp
qed




text \<open>
  Claim C9. \<^verbatim>\<open>delete_buffers\<close> on a list is not atomic. Let position \<open>k\<close> be the first
  whose uuid is absent when the loop reaches it (it was never in the map, or an earlier
  position of the same list removed it), every earlier uuid being present when reached.
  Then the call fails with \<open>KeyError\<close>, and the map it leaves behind is the old one
  without the uuids before \<open>k\<close>: each of them is gone, every other entry is as before.
\<close>

theorem delete_buffers_not_atomic:
  assumes "k < length us"
    and "\<forall>j<k. us ! j \<in> dom (buffers w) - set (take j us)"
    and "us ! k \<notin> dom (buffers w) - set (take k us)"
  shows "delete_buffers (Many us) w
           = (Inl KeyError, w\<lparr>buffers := buffers w |` (- set (take k us))\<rparr>)
     \<and> (\<forall>j<k. buffers (snd (delete_buffers (Many us) w)) (us ! j) = None)
     \<and> (\<forall>u. u \<notin> set (take k us) \<longrightarrow> buffers (snd (delete_buffers (Many us) w)) u = buffers w u)"
proof -
  have run: "delete_buffers (Many us) w
           = (Inl KeyError, w\<lparr>buffers := buffers w |` (- set (take k us))\<rparr>)"
    using delete_each_stops [OF assms] by (simp add: delete_buffers_def)
  have gone: "\<forall>j<k. buffers (snd (delete_buffers (Many us) w)) (us ! j) = None"
  proof (intro allI impI)
    fix j assume "j < k"
    then have "us ! j \<in> set (take k us)"
      using assms(1) by (auto simp: in_set_conv_nth intro!: exI [of _ j])
    then show "buffers (snd (delete_buffers (Many us) w)) (us ! j) = None"
      unfolding run by simp
  qed
  have kept: "\<forall>u. u \<notin> set (take k us) \<longrightarrow> buffers (snd (delete_buffers (Many us) w)) u = buffers w u"
    unfolding run by simp
  from run gone kept show ?thesis by blast
qed

theorem delete_buffers_not_atomic_witness:
  "delete_buffers (Many [1, 2, 5, 3])
      \<lparr>local_devices = [0 :: nat], backend = (\<lambda>data dev. Inr (dev, data)),
       buffers = [1 \<mapsto> (0, ''a''), 2 \<mapsto> (0, ''b''), 3 \<mapsto> (0, ''c'')]\<rparr>
    = (Inl KeyError,
       \<lparr>local_devices = [0], backend = (\<lambda>data dev. Inr (dev, data)),
        buffers = [3 \<mapsto> (0, ''c'')]\<rparr>)"
proof -
  let ?w = "\<lparr>local_devices = [0 :: nat],
       backend = (\<lambda>(data :: string) (dev :: nat). Inr (dev, data) :: error + nat \<times> string),
       buffers = [1 \<mapsto> (0, ''a''), 2 \<mapsto> (0, ''b''), 3 \<mapsto> (0, ''c'')]\<rparr>"
  have k: "(2::nat) < length [1, 2, 5, 3 :: int]" by simp
  have before: "\<forall>j<2. [1, 2, 5, 3 :: int] ! j \<in> dom (buffers ?w) - set (take j [1, 2, 5, 3])"
    by (simp add: numeral_2_eq_2 less_Suc_eq)
  have at: "[1, 2, 5, 3 :: int] ! 2 \<notin> dom (buffers ?w) - set (take 2 [1, 2, 5, 3])"
    by (simp add: numeral_2_eq_2)
  have "buffers ?w |` (- set (take 2 [1, 2, 5, 3])) = [3 \<mapsto> (0, ''c'')]"
    by (rule ext) (simp add: restrict_map_def numeral_2_eq_2)
  with delete_buffers_not_atomic [OF k before at] show ?thesis by simp
qed

section \<open>Properties of distributed array values\<close>






text \<open>
  Claim C8 (the code departs from it). \<^verbatim>\<open>delete()\<close> unsets the cached host value, but it
  releases no buffer reference: \<^verbatim>\<open>del buf\<close> only unbinds the loop variable and the
  attribute it sets to \<^verbatim>\<open>None\<close> is \<^verbatim>\<open>device_buffers\<close>, not \<^verbatim>\<open>remote_buffers\<close>. After
  \<^verbatim>\<open>delete()\<close> every array holds the references it held before; an array holding two
  references and a cached host value holds the same two references and no cached value.
\<close>

theorem delete_keeps_remote_buffers:
  "remote_buffers (delete a) = remote_buffers a
   \<and> delete a = a\<lparr>device_buffers := Some PyNone, npy_value := None\<rparr>
   \<and> delete
      \<lparr>array_id = 1, device_mesh = 0, aval = \<lparr>shape = [4], dtype = ''float32''\<rparr>,
       sharding_spec = (),
       remote_buffers = [\<lparr>ref_host_id = 0, ref_device_id = 0, ref_uuid = 11, ref_dtype = ''float32''\<rparr>,
                         \<lparr>ref_host_id = 0, ref_device_id = 1, ref_uuid = 12, ref_dtype = ''float32''\<rparr>],
       indices = [(0 :: int, 2 :: int), (2, 4)], npy_value = Some [1, 2, 3, 4 :: int],
       cached_one_replica_buffer_indices = None, device_buffers = None\<rparr>
    = \<lparr>array_id = 1, device_mesh = 0, aval = \<lparr>shape = [4], dtype = ''float32''\<rparr>,
       sharding_spec = (),
       remote_buffers = [\<lparr>ref_host_id = 0, ref_device_id = 0, ref_uuid = 11, ref_dtype = ''float32''\<rparr>,
                         \<lparr>ref_host_id = 0, ref_device_id = 1, ref_uuid = 12, ref_dtype = ''float32''\<rparr>],
       indices = [(0, 2), (2, 4)], npy_value = None,
       cached_one_replica_buffer_indices = None, device_buffers = Some PyNone\<rparr>"
  by (simp add: delete_def Let_def)

section \<open>Properties of replicated distributed array values\<close>

lemma map_of_dict_setitem: "map_of (dict_setitem k v d) = (map_of d)(k \<mapsto> v)"
  by (induction d) (auto simp: fun_upd_twist)

lemma dict_setitem_fresh: "map_of d k = None \<Longrightarrow> dict_setitem k v d = d @ [(k, v)]"
  by (induction d) (auto split: if_splits)

lemma set_dict_setitem_fresh:
  "map_of d k = None \<Longrightarrow> set (dict_setitem k v d) = insert (k, v) (set d)"
  by (simp add: dict_setitem_fresh)

lemma maps_inverse_step:
  assumes inv: "maps_inverse mam amm"
    and fresh_mesh: "map_of mam mesh = None"
    and fresh_array: "map_of amm (array_id array) = None"
  shows "maps_inverse (dict_setitem mesh array mam) (dict_setitem (array_id array) mesh amm)"
proof -
  have old_meshes: "map_of amm (array_id a) = Some m \<and> array_id a \<noteq> array_id array"
    if "(m, a) \<in> set mam" for m a
  proof -
    from inv that have "map_of amm (array_id a) = Some m"
      by (auto simp: maps_inverse_def list_all_iff)
    with fresh_array show ?thesis
      by auto
  qed
  have old_arrays: "map_option array_id (map_of mam m) = Some i \<and> m \<noteq> mesh"
    if "(i, m) \<in> set amm" for i m
  proof -
    from inv that have "map_option array_id (map_of mam m) = Some i"
      by (auto simp: maps_inverse_def list_all_iff)
    with fresh_mesh show ?thesis
      by auto
  qed
  have meshes: "list_all (\<lambda>(m, a). ((map_of amm)(array_id array \<mapsto> mesh)) (array_id a) = Some m)
                  (dict_setitem mesh array mam)"
    unfolding list_all_iff set_dict_setitem_fresh [OF fresh_mesh]
    using old_meshes by auto
  have arrays: "list_all (\<lambda>(i, m). map_option array_id (((map_of mam)(mesh \<mapsto> array)) m) = Some i)
                  (dict_setitem (array_id array) mesh amm)"
    unfolding list_all_iff set_dict_setitem_fresh [OF fresh_array]
    using old_arrays by auto
  from meshes arrays show ?thesis
    unfolding maps_inverse_def map_of_dict_setitem by simp
qed

lemma add_replica_preserves:
  "mutually_inverse r \<Longrightarrow> add_replica mesh array r = Inr r' \<Longrightarrow> mutually_inverse r'"
  by (auto simp: add_replica_def mutually_inverse_def dict_contains_def
      split: if_splits intro: maps_inverse_step)

lemma add_replica_rejects:
  "map_of (array_mesh_map r) (array_id array) \<noteq> None
     \<Longrightarrow> add_replica mesh array r = Inl (RuntimeError ''Replica exists.'')"
  "map_of (array_mesh_map r) (array_id array) = None \<Longrightarrow> map_of (mesh_array_map r) mesh \<noteq> None
     \<Longrightarrow> add_replica mesh array r = Inl (RuntimeError ''Mesh exists.'')"
  by (simp_all add: add_replica_def dict_contains_def)

lemma fill_maps_inverse:
  "maps_inverse mam amm \<Longrightarrow> distinct (map fst ps) \<Longrightarrow> distinct (map (array_id \<circ> snd) ps)
     \<Longrightarrow> (\<forall>(m, a) \<in> set ps. map_of mam m = None \<and> map_of amm (array_id a) = None)
     \<Longrightarrow> fill_maps ps (mam, amm) = (mam', amm') \<Longrightarrow> maps_inverse mam' amm'"
proof (induction ps arbitrary: mam amm)
  case Nil
  then show ?case by simp
next
  case (Cons p ps)
  obtain mesh array where p: "p = (mesh, array)" by (cases p)
  let ?mam = "dict_setitem mesh array mam" and ?amm = "dict_setitem (array_id array) mesh amm"
  have step: "maps_inverse ?mam ?amm"
    using Cons.prems(1,4) p by (intro maps_inverse_step) auto
  have fresh: "\<forall>(m, a) \<in> set ps. map_of ?mam m = None \<and> map_of ?amm (array_id a) = None"
    using Cons.prems(2,3,4) p by (force simp: map_of_dict_setitem)
  show ?case
    using Cons.IH [OF step _ _ fresh] Cons.prems(2,3,5) p by simp
qed

lemma init_establishes:
  assumes "distinct (map fst (zip device_meshes arrays))"
    and "distinct (map (array_id \<circ> snd) (zip device_meshes arrays))"
    and "ReplicatedDistributedArray_init device_meshes arrays = Inr r"
  shows "mutually_inverse r"
proof -
  obtain mam amm where f: "fill_maps (zip device_meshes arrays) ([], []) = (mam, amm)"
    by (cases "fill_maps (zip device_meshes arrays) ([], [])")
  have "maps_inverse mam amm"
    by (rule fill_maps_inverse [OF _ assms(1,2) _ f]) (auto simp: maps_inverse_def)
  with assms(3) f show ?thesis
    by (auto simp: ReplicatedDistributedArray_init_def mutually_inverse_def split: sum.splits)
qed

text \<open>
  Claim C7 (the code departs from it). \<^verbatim>\<open>add_replica\<close> refuses an array or a mesh that
  is already registered and keeps the two dicts inverse to one another
  (\<open>add_replica_rejects\<close>, \<open>add_replica_preserves\<close>), but \<^verbatim>\<open>__init__\<close> makes neither
  check. Given the same mesh twice, with two arrays, it registers both arrays under that
  mesh in the array dict while the mesh dict keeps only the second. Given two meshes and
  the same array twice, it registers the array under both meshes in the mesh dict while
  the array dict keeps only the second mesh. In both cases construction succeeds and the
  dicts are not inverse to one another.
\<close>

theorem replicated_init_same_mesh_twice:
  "ReplicatedDistributedArray_init [5, 5]
      [DistributedArray_init 1 5 \<lparr>shape = [4], dtype = ''float32''\<rparr> () [] [0 :: int],
       DistributedArray_init 2 5 \<lparr>shape = [4], dtype = ''float32''\<rparr> () [] [0]]
    = Inr (\<lparr>mesh_array_map =
              [(5, DistributedArray_init 2 5 \<lparr>shape = [4], dtype = ''float32''\<rparr> () [] [0])],
            array_mesh_map = [(1, 5), (2, 5)],
            replicated_aval = \<lparr>shape = [4], dtype = ''float32''\<rparr>\<rparr>
           :: (int, unit, unit) ReplicatedDistributedArray)
   \<and> \<not> mutually_inverse
        (\<lparr>mesh_array_map =
              [(5, DistributedArray_init 2 5 \<lparr>shape = [4], dtype = ''float32''\<rparr> () [] [0 :: int])],
            array_mesh_map = [(1, 5), (2, 5)],
            replicated_aval = \<lparr>shape = [4], dtype = ''float32''\<rparr>\<rparr>
           :: (int, unit, unit) ReplicatedDistributedArray)
   \<and> ReplicatedDistributedArray_init [5, 6]
      [DistributedArray_init 1 5 \<lparr>shape = [4], dtype = ''float32''\<rparr> () [] [0 :: int],
       DistributedArray_init 1 5 \<lparr>shape = [4], dtype = ''float32''\<rparr> () [] [0]]
    = Inr (\<lparr>mesh_array_map =
              [(5, DistributedArray_init 1 5 \<lparr>shape = [4], dtype = ''float32''\<rparr> () [] [0]),
               (6, DistributedArray_init 1 5 \<lparr>shape = [4], dtype = ''float32''\<rparr> () [] [0])],
            array_mesh_map = [(1, 6)],
            replicated_aval = \<lparr>shape = [4], dtype = ''float32''\<rparr>\<rparr>
           :: (int, unit, unit) ReplicatedDistributedArray)
   \<and> \<not> mutually_inverse
        (\<lparr>mesh_array_map =
              [(5, DistributedArray_init 1 5 \<lparr>shape = [4], dtype = ''float32''\<rparr> () [] [0 :: int]),
               (6, DistributedArray_init 1 5 \<lparr>shape = [4], dtype = ''float32''\<rparr> () [] [0])],
            array_mesh_map = [(1, 6)],
            replicated_aval = \<lparr>shape = [4], dtype = ''float32''\<rparr>\<rparr>
           :: (int, unit, unit) ReplicatedDistributedArray)"
  by (simp add: ReplicatedDistributedArray_init_def first_value_def mutually_inverse_def
      maps_inverse_def DistributedArray_init_def)

section \<open>Properties of the device identity strings\<close>

lemma concat_map_map: "concat (map (\<lambda>xs. map f xs) xss) = map f (concat xss)"
  by (induction xss) simp_all

lemma extend_device_strs_result:
  "extend_device_strs info devs i hs strs = Inr out
     \<Longrightarrow> \<exists>ips. length ips = length hs
           \<and> (\<forall>k<length hs. node_manager_address info (i + k) = Inr (ips ! k))
           \<and> out = strs @ concat (map (\<lambda>ip. map (\<lambda>d. device_id_to_str ip d ''gpu'') (concat devs)) ips)"
proof (induction hs arbitrary: i strs)
  case Nil
  then show ?case by simp
next
  case (Cons h hs)
  from Cons.prems obtain ip where ip: "node_manager_address info i = Inr ip"
    and rest: "extend_device_strs info devs (Suc i) hs
                 (strs @ map (\<lambda>d. device_id_to_str ip d ''gpu'') (concat devs)) = Inr out"
    by (auto simp: concat_map_map split: sum.splits)
  from Cons.IH [OF rest] obtain ips where ips: "length ips = length hs"
    "\<forall>k<length hs. node_manager_address info (Suc i + k) = Inr (ips ! k)"
    "out = (strs @ map (\<lambda>d. device_id_to_str ip d ''gpu'') (concat devs))
            @ concat (map (\<lambda>ip. map (\<lambda>d. device_id_to_str ip d ''gpu'') (concat devs)) ips)"
    by blast
  have "\<forall>k<length (h # hs). node_manager_address info (i + k) = Inr ((ip # ips) ! k)"
  proof (intro allI impI)
    fix k assume "k < length (h # hs)"
    then show "node_manager_address info (i + k) = Inr ((ip # ips) ! k)"
      using ip ips(2) by (cases k) auto
  qed
  with ips(1,3) show ?case
    by (intro exI [of _ "ip # ips"]) simp
qed




lemma resolve_devices_aligned:
  "resolve_devices msg devices_arg hs n = Inr devs
     \<Longrightarrow> length devs = length hs \<and> (\<forall>ids \<in> set devs. length ids = n)"
  by (auto simp: resolve_devices_def all_aligned_def list_all_iff
      split: option.splits devices_list.splits if_splits)

lemma length_concat_aligned:
  "(\<forall>ids \<in> set devs. length ids = n) \<Longrightarrow> length (concat devs) = length devs * n"
  by (induction devs) simp_all

lemma str_int_digits: "str_int 0 = ''0''" "str_int 1 = ''1''"
  by (simp_all add: str_int_def str_nat.simps)

lemma example_device_strs:
  "extend_device_strs
      (Some [[''NodeManagerAddress'' \<mapsto> ''10.0.0.1''], [''NodeManagerAddress'' \<mapsto> ''10.0.0.2'']])
      [[0, 1], [0, 1]] 0 [0, 1] []
    = Inr [''10.0.0.1:gpu:0'', ''10.0.0.1:gpu:1'', ''10.0.0.1:gpu:0'',
           ''10.0.0.1:gpu:1'', ''10.0.0.2:gpu:0'', ''10.0.0.2:gpu:1'',
           ''10.0.0.2:gpu:0'', ''10.0.0.2:gpu:1'']"
  by (simp add: node_manager_address_def list_getitem_def device_id_to_str_def str_int_digits)

lemma example_virtual_init:
  "VirtualPhysicalMesh_init (Some [0, 1])
      (Some [[''NodeManagerAddress'' \<mapsto> ''10.0.0.1''], [''NodeManagerAddress'' \<mapsto> ''10.0.0.2'']])
      (Some ''10.0.0.1'') 2 None
    = Inr \<lparr>v_host_ids = [0, 1],
           v_host_info = Some [[''NodeManagerAddress'' \<mapsto> ''10.0.0.1''],
                               [''NodeManagerAddress'' \<mapsto> ''10.0.0.2'']],
           v_head_ip = Some ''10.0.0.1'', v_num_devices_per_host = 2,
           v_devices = [[0, 1], [0, 1]],
           v_device_strs = [''10.0.0.1:gpu:0'', ''10.0.0.1:gpu:1'', ''10.0.0.1:gpu:0'',
                            ''10.0.0.1:gpu:1'', ''10.0.0.2:gpu:0'', ''10.0.0.2:gpu:1'',
                            ''10.0.0.2:gpu:0'', ''10.0.0.2:gpu:1'']\<rparr>"
proof -
  have "map int [0..<2] = [0, 1]"
    by (simp add: upt_rec numeral_2_eq_2)
  then show ?thesis
    by (simp add: VirtualPhysicalMesh_init_def resolve_devices_def example_device_strs
        del: extend_device_strs.simps)
qed

lemma example_physical_init:
  "PhysicalDeviceMesh_init (\<lambda>m. Inr [''worker0'', ''worker1'']) None (Some [0, 1])
      (Some [[''NodeManagerAddress'' \<mapsto> ''10.0.0.1''], [''NodeManagerAddress'' \<mapsto> ''10.0.0.2'']])
      (Some ''10.0.0.1'') 2 True
    = Inr \<lparr>use_ray = True, host_ids = [0, 1],
           host_info = Some [[''NodeManagerAddress'' \<mapsto> ''10.0.0.1''],
                             [''NodeManagerAddress'' \<mapsto> ''10.0.0.2'']],
           head_ip = Some ''10.0.0.1'', num_devices_per_host = 2,
           devices = HostDeviceIds [[0, 1], [0, 1]],
           device_strs = [''10.0.0.1:gpu:0'', ''10.0.0.1:gpu:1'', ''10.0.0.1:gpu:0'',
                          ''10.0.0.1:gpu:1'', ''10.0.0.2:gpu:0'', ''10.0.0.2:gpu:1'',
                          ''10.0.0.2:gpu:0'', ''10.0.0.2:gpu:1''],
           workers = Some [''worker0'', ''worker1''], launched = True\<rparr>"
proof -
  have "map int [0..<2] = [0, 1]"
    by (simp add: upt_rec numeral_2_eq_2)
  then show ?thesis
    by (simp add: PhysicalDeviceMesh_init_def resolve_devices_def example_device_strs
        private_launch_xla_servers_def del: extend_device_strs.simps)
qed



section \<open>Properties of the default logical mesh\<close>

lemma physical_init_num_devices:
  assumes "PhysicalDeviceMesh_init start_workers devices_arg host_ids_arg host_info_arg head_ip_arg
             n use_ray_arg = Inr m"
  shows "num_devices m = Inr (num_hosts m * num_devices_per_host m)"
proof (cases use_ray_arg)
  case False
  with assms show ?thesis
    by (auto simp: PhysicalDeviceMesh_init_def num_devices_def num_hosts_def
        split: option.splits devices_list.splits list.splits)
next
  case True
  with assms obtain hs devs strs ws where
    devs: "resolve_devices (''Devices specified for each host does not align ''
                   @ ''with `num_devices_per_host`.'') devices_arg hs n = Inr devs"
    and m: "m = \<lparr>use_ray = True, host_ids = hs, host_info = host_info_arg, head_ip = head_ip_arg,
                 num_devices_per_host = n, devices = HostDeviceIds devs, device_strs = strs,
                 workers = Some ws, launched = True\<rparr>"
    by (auto simp: PhysicalDeviceMesh_init_def private_launch_xla_servers_def
        split: option.splits sum.splits)
  from resolve_devices_aligned [OF devs] have "length (concat devs) = length hs * n"
    using length_concat_aligned [of devs n] by auto
  with m show ?thesis
    by (simp add: num_devices_def num_hosts_def)
qed

lemma virtual_init_num_devices:
  assumes "VirtualPhysicalMesh_init host_ids_arg host_info_arg head_ip_arg n v_devices_arg = Inr v"
  shows "v_num_devices v = v_num_hosts v * v_num_devices_per_host v"
proof -
  from assms obtain hs devs strs where
    devs: "resolve_devices (''Device IDs specified for each host does not align ''
                   @ ''with `num_devices_per_host`.'')
                 (map_option HostDeviceIds v_devices_arg) hs n = Inr devs"
    and v: "v = \<lparr>v_host_ids = hs, v_host_info = host_info_arg, v_head_ip = head_ip_arg,
                 v_num_devices_per_host = n, v_devices = devs, v_device_strs = strs\<rparr>"
    by (auto simp: VirtualPhysicalMesh_init_def split: option.splits sum.splits)
  from resolve_devices_aligned [OF devs] have "length (concat devs) = length hs * n"
    using length_concat_aligned [of devs n] by auto
  with v show ?thesis
    by (simp add: v_num_devices_def v_num_hosts_def)
qed

text \<open>
  Claim C5. On a mesh of shape \<open>(H, D)\<close> that its constructor made,
  \<^verbatim>\<open>get_default_logical_mesh\<close> returns the logical mesh over the row-major id grid
  \<open>0, \<dots>, H * D - 1\<close> of shape \<open>(H, D)\<close> with \<open>alpha = [1, 1]\<close>; \<open>beta\<close> is \<open>[1, 1]\<close> when
  \<open>H = 1\<close>, and otherwise \<open>[1, 0.01]\<close> for a \<^verbatim>\<open>PhysicalDeviceMesh\<close> and \<open>[1, 0.1]\<close> for a
  \<^verbatim>\<open>VirtualPhysicalMesh\<close>. The two are different.
\<close>

theorem default_logical_mesh_betas:
  "(PhysicalDeviceMesh_init start_workers devices_arg host_ids_arg host_info_arg head_ip_arg
       n use_ray_arg = Inr m \<longrightarrow>
      get_default_logical_mesh m
        = Inr \<lparr>physical_mesh = m,
               id_mesh = \<lparr>nd_shape = (num_hosts m, num_devices_per_host m),
                          nd_flat = [0..<num_hosts m * num_devices_per_host m]\<rparr>,
               mesh_alpha = Some [1, 1],
               mesh_beta = Some (if num_hosts m = 1 then [1, 1] else [1, 0.01])\<rparr>)
   \<and> (VirtualPhysicalMesh_init v_host_ids_arg v_host_info_arg v_head_ip_arg v_n v_devices_arg
       = Inr v \<longrightarrow>
      v_get_default_logical_mesh v
        = Inr \<lparr>physical_mesh = v,
               id_mesh = \<lparr>nd_shape = (v_num_hosts v, v_num_devices_per_host v),
                          nd_flat = [0..<v_num_hosts v * v_num_devices_per_host v]\<rparr>,
               mesh_alpha = Some [1, 1],
               mesh_beta = Some (if v_num_hosts v = 1 then [1, 1] else [1, 0.1])\<rparr>)
   \<and> [1, 0.01] \<noteq> [1, 0.1 :: rat]"
proof (rule conjI [OF impI conjI [OF impI]])
  assume "PhysicalDeviceMesh_init start_workers devices_arg host_ids_arg host_info_arg head_ip_arg
       n use_ray_arg = Inr m"
  from physical_init_num_devices [OF this]
  show "get_default_logical_mesh m
        = Inr \<lparr>physical_mesh = m,
               id_mesh = \<lparr>nd_shape = (num_hosts m, num_devices_per_host m),
                          nd_flat = [0..<num_hosts m * num_devices_per_host m]\<rparr>,
               mesh_alpha = Some [1, 1],
               mesh_beta = Some (if num_hosts m = 1 then [1, 1] else [1, 0.01])\<rparr>"
    by (simp add: get_default_logical_mesh_def get_logical_mesh_def reshape_def arange_def
        or_ones_def)
next
  assume "VirtualPhysicalMesh_init v_host_ids_arg v_host_info_arg v_head_ip_arg v_n v_devices_arg
       = Inr v"
  from virtual_init_num_devices [OF this]
  show "v_get_default_logical_mesh v
        = Inr \<lparr>physical_mesh = v,
               id_mesh = \<lparr>nd_shape = (v_num_hosts v, v_num_devices_per_host v),
                          nd_flat = [0..<v_num_hosts v * v_num_devices_per_host v]\<rparr>,
               mesh_alpha = Some [1, 1],
               mesh_beta = Some (if v_num_hosts v = 1 then [1, 1] else [1, 0.1])\<rparr>"
    by (simp add: v_get_default_logical_mesh_def v_get_logical_mesh_def reshape_def arange_def
        or_ones_def)
next
  show "[1, 0.01] \<noteq> [1, 0.1 :: rat]"
    by simp
qed

lemma example_local_init:
  "PhysicalDeviceMesh_init (\<lambda>m. Inr ([] :: string list)) (Some (XlaDevices [0, 1])) None None None 1 False
    = Inr \<lparr>use_ray = False, host_ids = [0], host_info = None, head_ip = Some ''127.0.0.1'',
           num_devices_per_host = 2, devices = XlaDevices [0, 1],
           device_strs = [''127.0.0.1:gpu:0'', ''127.0.0.1:gpu:1''],
           workers = None, launched = False\<rparr>"
  by (simp add: PhysicalDeviceMesh_init_def device_id_to_str_def str_int_digits)

theorem default_logical_mesh_betas_witness:
  "map_sum id mesh_beta (get_default_logical_mesh
      \<lparr>use_ray = False, host_ids = [0], host_info = None, head_ip = Some ''127.0.0.1'',
       num_devices_per_host = 2, devices = XlaDevices [0, 1],
       device_strs = [''127.0.0.1:gpu:0'', ''127.0.0.1:gpu:1''],
       workers = (None :: string list option), launched = False\<rparr>) = Inr (Some [1, 1])
   \<and> map_sum id mesh_beta (get_default_logical_mesh
      \<lparr>use_ray = True, host_ids = [0, 1],
       host_info = Some [[''NodeManagerAddress'' \<mapsto> ''10.0.0.1''],
                         [''NodeManagerAddress'' \<mapsto> ''10.0.0.2'']],
       head_ip = Some ''10.0.0.1'', num_devices_per_host = 2,
       devices = HostDeviceIds [[0, 1], [0, 1]],
       device_strs = [''10.0.0.1:gpu:0'', ''10.0.0.1:gpu:1'', ''10.0.0.1:gpu:0'',
                      ''10.0.0.1:gpu:1'', ''10.0.0.2:gpu:0'', ''10.0.0.2:gpu:1'',
                      ''10.0.0.2:gpu:0'', ''10.0.0.2:gpu:1''],
       workers = Some [''worker0'', ''worker1''], launched = True\<rparr>) = Inr (Some [1, 1 / 100])
   \<and> map_sum id mesh_beta (v_get_default_logical_mesh
      \<lparr>v_host_ids = [0, 1],
       v_host_info = Some [[''NodeManagerAddress'' \<mapsto> ''10.0.0.1''],
                           [''NodeManagerAddress'' \<mapsto> ''10.0.0.2'']],
       v_head_ip = Some ''10.0.0.1'', v_num_devices_per_host = 2,
       v_devices = [[0, 1], [0, 1]],
       v_device_strs = [''10.0.0.1:gpu:0'', ''10.0.0.1:gpu:1'', ''10.0.0.1:gpu:0'',
                        ''10.0.0.1:gpu:1'', ''10.0.0.2:gpu:0'', ''10.0.0.2:gpu:1'',
                        ''10.0.0.2:gpu:0'', ''10.0.0.2:gpu:1'']\<rparr>) = Inr (Some [1, 1 / 10])"
proof -
  note local = default_logical_mesh_betas [THEN conjunct1, THEN mp, OF example_local_init]
  note cluster = default_logical_mesh_betas [THEN conjunct1, THEN mp, OF example_physical_init]
  note virtual = default_logical_mesh_betas
    [THEN conjunct2, THEN conjunct1, THEN mp, OF example_virtual_init]
  show ?thesis
    unfolding local cluster virtual
    by (simp add: num_hosts_def v_num_hosts_def)
qed

section \<open>Properties of the submesh grid\<close>

lemma collect_list_all2:
  "collect f xs = Inr ys \<Longrightarrow> list_all2 (\<lambda>x y. f x = Inr y) xs ys"
proof (induction xs arbitrary: ys)
  case Nil
  then show ?case by auto
next
  case (Cons x xs)
  from Cons.prems obtain y ys' where "f x = Inr y" "collect f xs = Inr ys'" "ys = y # ys'"
    by (auto split: sum.splits)
  with Cons.IH [of ys'] show ?case by simp
qed

lemma collect_total:
  "(\<forall>x \<in> set xs. \<exists>y. f x = Inr y) \<Longrightarrow> \<exists>ys. collect f xs = Inr ys"
proof (induction xs)
  case Nil
  then show ?case by simp
next
  case (Cons x xs)
  then obtain y ys where "f x = Inr y" "collect f xs = Inr ys" by auto
  then show ?case by simp
qed

lemma grid_pairs_length:
  "length (concat (map (\<lambda>i. map (\<lambda>j. (i, j)) [0..<n]) [0..<m])) = m * n"
  by (induction m) simp_all

lemma grid_pairs_nth:
  "i < m \<Longrightarrow> j < n \<Longrightarrow> concat (map (\<lambda>i. map (\<lambda>j. (i, j)) [0..<n]) [0..<m]) ! (i * n + j) = (i, j)"
proof (induction m)
  case 0
  then show ?case by simp
next
  case (Suc m)
  show ?case
  proof (cases "i < m")
    case True
    then have "i * n + j < m * n"
      using Suc.prems(2) by (metis add.commute add_less_cancel_left less_le_trans mult_Suc mult_le_mono1 Suc_leI)
    with Suc.IH [OF True Suc.prems(2)] show ?thesis
      by (simp add: nth_append grid_pairs_length)
  next
    case False
    with Suc.prems have "i = m" by simp
    with Suc.prems(2) show ?thesis
      by (simp add: nth_append grid_pairs_length)
  qed
qed

lemma grid_pairs_set:
  "set (concat (map (\<lambda>i. map (\<lambda>j. (i, j)) [0..<n]) [0..<m])) = {0..<m} \<times> {0..<n}"
  by auto

lemma getitems_range:
  "b \<le> length xs \<Longrightarrow> getitems xs (map int [a..<b]) = Inr (map (\<lambda>x. xs ! x) [a..<b])"
proof (induction "b - a" arbitrary: a)
  case 0
  then show ?case by simp
next
  case (Suc d)
  then have a: "a < b" by simp
  then have range: "[a..<b] = a # [Suc a..<b]" by (simp add: upt_conv_Cons)
  from Suc have ih: "getitems xs (map int [Suc a..<b]) = Inr (map (\<lambda>x. xs ! x) [Suc a..<b])"
    by simp
  from a Suc.prems have "list_getitem xs (int a) = Inr (xs ! a)"
    by (simp add: list_getitem_def)
  with ih show ?case unfolding range by simp
qed

lemma extend_device_strs_total:
  "(\<forall>k<length hs. \<exists>ip. node_manager_address info (i + k) = Inr ip)
     \<Longrightarrow> \<exists>out. extend_device_strs info devs i hs strs = Inr out"
proof (induction hs arbitrary: i strs)
  case Nil
  then show ?case by simp
next
  case (Cons h hs)
  from Cons.prems obtain ip where ip: "node_manager_address info i = Inr ip"
    by force
  have "\<forall>k<length hs. \<exists>ip. node_manager_address info (Suc i + k) = Inr ip"
  proof (intro allI impI)
    fix k assume "k < length hs"
    then have "Suc k < length (h # hs)" by simp
    with Cons.prems have "\<exists>ip. node_manager_address info (i + Suc k) = Inr ip" by blast
    then show "\<exists>ip. node_manager_address info (Suc i + k) = Inr ip" by simp
  qed
  from Cons.IH [OF this] ip show ?case by simp
qed


lemma node_manager_address_Inr:
  "node_manager_address info k = Inr ip
     \<longleftrightarrow> (\<exists>nodes. info = Some nodes \<and> k < length nodes
            \<and> (nodes ! k) ''NodeManagerAddress'' = Some ip)"
  by (auto simp: node_manager_address_def list_getitem_def split: option.splits sum.splits if_splits)

lemma virtual_init_hosts:
  assumes "VirtualPhysicalMesh_init host_ids_arg host_info_arg head_ip_arg n v_devices_arg = Inr v"
  shows "\<forall>k<length (v_host_ids v). \<exists>ip. node_manager_address (v_host_info v) k = Inr ip"
proof -
  from assms obtain hs devs strs where
    strs: "extend_device_strs host_info_arg devs 0 hs [] = Inr strs"
    and v: "v = \<lparr>v_host_ids = hs, v_host_info = host_info_arg, v_head_ip = head_ip_arg,
                 v_num_devices_per_host = n, v_devices = devs, v_device_strs = strs\<rparr>"
    by (auto simp: VirtualPhysicalMesh_init_def split: option.splits sum.splits)
  from extend_device_strs_result [OF strs] v show ?thesis
    by auto
qed

lemma submesh_at_result:
  assumes hosts: "\<forall>k<length (v_host_ids v). \<exists>ip. node_manager_address (v_host_info v) k = Inr ip"
    and sh: "0 < sh" and sd: "0 < sd"
    and fits: "(i + 1) * sh \<le> length (v_host_ids v)"
  shows "\<exists>nodes strs. v_host_info v = Some nodes
     \<and> submesh_at v sh sd (i, j)
        = Inr \<lparr>v_host_ids = map (\<lambda>x. v_host_ids v ! x) [i * sh..<(i + 1) * sh],
               v_host_info = Some (map (\<lambda>x. nodes ! x) [i * sh..<(i + 1) * sh]),
               v_head_ip = v_head_ip v, v_num_devices_per_host = sd,
               v_devices = replicate sh (map int [j * sd..<(j + 1) * sd]),
               v_device_strs = strs\<rparr>"
proof -
  let ?hi = "[i * sh..<(i + 1) * sh]"
  let ?r = "map int [j * sd..<(j + 1) * sd]"
  have len_hi: "length ?hi = sh" by simp
  from sh fits have "0 < length (v_host_ids v)"
    by (metis add_gr_0 less_le_trans mult_pos_pos zero_less_one)
  with hosts obtain nodes where nodes: "v_host_info v = Some nodes"
    by (auto simp: node_manager_address_Inr)
  have keys: "k < length nodes \<and> (\<exists>ip. (nodes ! k) ''NodeManagerAddress'' = Some ip)"
    if "k < length (v_host_ids v)" for k
    using hosts that nodes by (auto simp: node_manager_address_Inr)
  have enough: "(i + 1) * sh \<le> length nodes"
  proof -
    from sh have "(i + 1) * sh - 1 < (i + 1) * sh" by simp
    with fits have "(i + 1) * sh - 1 < length (v_host_ids v)" by simp
    from keys [OF this] have "(i + 1) * sh - 1 < length nodes" by blast
    then show ?thesis by (cases "(i + 1) * sh") simp_all
  qed
  let ?hs = "map (\<lambda>x. v_host_ids v ! x) ?hi"
  let ?info = "map (\<lambda>x. nodes ! x) ?hi"
  let ?devs = "replicate sh ?r"
  have g1: "getitems (v_host_ids v) (map int ?hi) = Inr ?hs"
    by (rule getitems_range [OF fits])
  have g2: "getitems nodes (map int ?hi) = Inr ?info"
    by (rule getitems_range [OF enough])
  have devs: "map (\<lambda>_. ?r) (map int ?hi) = ?devs"
    by (simp add: map_replicate_const)
  have first: "list_getitem ?devs 0 = Inr ?r"
    using sh by (simp add: list_getitem_def)
  have resolve: "resolve_devices msg (map_option HostDeviceIds (Some ?devs)) ?hs (length ?r) = Inr ?devs"
    for msg
    by (simp add: resolve_devices_def all_aligned_def list_all_iff)
  have "\<forall>k<length ?hs. \<exists>ip. node_manager_address (Some ?info) (0 + k) = Inr ip"
  proof (intro allI impI)
    fix k assume "k < length ?hs"
    then have k: "k < sh" by simp
    then have "i * sh + k < (i + 1) * sh" by simp
    with fits have "i * sh + k < length (v_host_ids v)" by simp
    from keys [OF this] k show "\<exists>ip. node_manager_address (Some ?info) (0 + k) = Inr ip"
      by (auto simp: node_manager_address_Inr)
  qed
  from extend_device_strs_total [OF this]
  obtain strs where strs: "extend_device_strs (Some ?info) ?devs 0 ?hs [] = Inr strs"
    by blast
  have "submesh_at v sh sd (i, j)
        = Inr \<lparr>v_host_ids = ?hs, v_host_info = Some ?info,
               v_head_ip = v_head_ip v, v_num_devices_per_host = sd,
               v_devices = ?devs, v_device_strs = strs\<rparr>"
    unfolding submesh_at_def Let_def fst_conv snd_conv slice_2d_def g1 nodes devs
    using g2 first resolve strs
    by (simp add: VirtualPhysicalMesh_init_def del: extend_device_strs.simps)
  with nodes show ?thesis by blast
qed

lemma block_fits: "i < n div s \<Longrightarrow> (i + 1) * s \<le> (n :: nat)"
proof -
  assume "i < n div s"
  then have "i + 1 \<le> n div s" by simp
  then have "(i + 1) * s \<le> (n div s) * s" by (rule mult_le_mono1)
  also have "\<dots> \<le> n" by simp
  finally show ?thesis .
qed

lemma block_index: "x \<in> set [i * s..<(i + 1) * s] \<Longrightarrow> x div s = (i :: nat)"
  by (cases "s = 0") (auto intro!: div_nat_eqI simp: mult.commute)

lemma blocks_disjoint:
  "(i, j) \<noteq> (i', j')
     \<Longrightarrow> (set [i * sh..<(i + 1) * sh] \<times> set [j * sd..<(j + 1) * sd])
         \<inter> (set [i' * sh..<(i' + 1) * sh] \<times> set [j' * sd..<(j' + 1) * sd]) = {}"
proof (rule ccontr)
  assume ne: "(i, j) \<noteq> (i', j')"
  assume "(set [i * sh..<(i + 1) * sh] \<times> set [j * sd..<(j + 1) * sd])
         \<inter> (set [i' * sh..<(i' + 1) * sh] \<times> set [j' * sd..<(j' + 1) * sd]) \<noteq> {}"
  then obtain x y where "x \<in> set [i * sh..<(i + 1) * sh]" "x \<in> set [i' * sh..<(i' + 1) * sh]"
    "y \<in> set [j * sd..<(j + 1) * sd]" "y \<in> set [j' * sd..<(j' + 1) * sd]"
    by blast
  then have "i = i'" "j = j'"
    using block_index [of x i sh] block_index [of x i' sh]
      block_index [of y j sd] block_index [of y j' sd] by simp_all
  with ne show False by simp
qed

text \<open>
  Claim C6 as the specification states it fails at a zero size: \<^verbatim>\<open>//\<close> raises
  \<open>ZeroDivisionError\<close> and no list of submeshes is returned.
\<close>

theorem slice_profiling_submeshes_zero_counterexample:
  "slice_profiling_submeshes
      \<lparr>v_host_ids = [0, 1],
       v_host_info = Some [[''NodeManagerAddress'' \<mapsto> ''10.0.0.1''],
                           [''NodeManagerAddress'' \<mapsto> ''10.0.0.2'']],
       v_head_ip = Some ''10.0.0.1'', v_num_devices_per_host = 2,
       v_devices = [[0, 1], [0, 1]],
       v_device_strs = [''10.0.0.1:gpu:0'', ''10.0.0.1:gpu:1'', ''10.0.0.1:gpu:0'',
                        ''10.0.0.1:gpu:1'', ''10.0.0.2:gpu:0'', ''10.0.0.2:gpu:1'',
                        ''10.0.0.2:gpu:0'', ''10.0.0.2:gpu:1'']\<rparr> 0 1
    = Inl ZeroDivisionError
   \<and> slice_profiling_submeshes
      \<lparr>v_host_ids = [0, 1],
       v_host_info = Some [[''NodeManagerAddress'' \<mapsto> ''10.0.0.1''],
                           [''NodeManagerAddress'' \<mapsto> ''10.0.0.2'']],
       v_head_ip = Some ''10.0.0.1'', v_num_devices_per_host = 2,
       v_devices = [[0, 1], [0, 1]],
       v_device_strs = [''10.0.0.1:gpu:0'', ''10.0.0.1:gpu:1'', ''10.0.0.1:gpu:0'',
                        ''10.0.0.1:gpu:1'', ''10.0.0.2:gpu:0'', ''10.0.0.2:gpu:1'',
                        ''10.0.0.2:gpu:0'', ''10.0.0.2:gpu:1'']\<rparr> 1 0
    = Inl ZeroDivisionError"
  by (simp add: slice_profiling_submeshes_def)

text \<open>
  Claim C6, amended. On a \<^verbatim>\<open>VirtualPhysicalMesh\<close> of shape \<open>(H, D)\<close> that its constructor
  made, \<^verbatim>\<open>slice_profiling_submeshes(sh, sd)\<close> with \<open>sh \<ge> 1\<close> and \<open>sd \<ge> 1\<close> returns exactly
  \<open>(H div sh) * (D div sd)\<close> submeshes. The submesh at position \<open>i * (D div sd) + j\<close> of the
  list (row-major order of the submesh grid) is what \<^verbatim>\<open>slice_2d\<close> returns for the host
  positions \<open>i * sh, \<dots>, (i + 1) * sh - 1\<close> and, on each of them, the device positions
  \<open>j * sd, \<dots>, (j + 1) * sd - 1\<close>: it has shape \<open>(sh, sd)\<close>, the host ids and host infos
  found at those host positions, and the head address of the mesh. The ranges lie within
  \<open>[0, H)\<close> and \<open>[0, D)\<close>, and the ranges of two different grid positions share no
  (host position, device position) pair. With \<open>sh = 0\<close> or \<open>sd = 0\<close> the call raises
  \<open>ZeroDivisionError\<close>.
\<close>

theorem slice_profiling_submeshes_grid:
  "(sh = 0 \<or> sd = 0 \<longrightarrow> slice_profiling_submeshes v sh sd = Inl ZeroDivisionError)
   \<and> (VirtualPhysicalMesh_init host_ids_arg host_info_arg head_ip_arg n v_devices_arg = Inr v
        \<and> 0 < sh \<and> 0 < sd \<longrightarrow>
      (\<exists>subs. slice_profiling_submeshes v sh sd = Inr subs
         \<and> length subs = (length (v_host_ids v) div sh) * (v_num_devices_per_host v div sd)
         \<and> (\<forall>i<length (v_host_ids v) div sh. \<forall>j<v_num_devices_per_host v div sd.
               slice_2d v (map int [i * sh..<(i + 1) * sh])
                   (replicate sh (map int [j * sd..<(j + 1) * sd]))
                 = Inr (subs ! (i * (v_num_devices_per_host v div sd) + j))
               \<and> v_shape (subs ! (i * (v_num_devices_per_host v div sd) + j)) = (sh, sd)
               \<and> v_host_ids (subs ! (i * (v_num_devices_per_host v div sd) + j))
                   = map (\<lambda>x. v_host_ids v ! x) [i * sh..<(i + 1) * sh]
               \<and> v_host_info (subs ! (i * (v_num_devices_per_host v div sd) + j))
                   = map_option (\<lambda>nodes. map (\<lambda>x. nodes ! x) [i * sh..<(i + 1) * sh])
                       (v_host_info v)
               \<and> v_devices (subs ! (i * (v_num_devices_per_host v div sd) + j))
                   = replicate sh (map int [j * sd..<(j + 1) * sd])
               \<and> v_head_ip (subs ! (i * (v_num_devices_per_host v div sd) + j)) = v_head_ip v
               \<and> (i + 1) * sh \<le> length (v_host_ids v)
               \<and> (j + 1) * sd \<le> v_num_devices_per_host v)))
   \<and> (\<forall>i j i' j'. (i, j) \<noteq> (i', j') \<longrightarrow>
         (set [i * sh..<(i + 1) * sh] \<times> set [j * sd..<(j + 1) * sd])
           \<inter> (set [i' * sh..<(i' + 1) * sh] \<times> set [j' * sd..<(j' + 1) * sd]) = {})"
proof (rule conjI [OF impI conjI [OF impI]])
  assume "sh = 0 \<or> sd = 0"
  then show "slice_profiling_submeshes v sh sd = Inl ZeroDivisionError"
    by (auto simp: slice_profiling_submeshes_def)
next
  assume a: "VirtualPhysicalMesh_init host_ids_arg host_info_arg head_ip_arg n v_devices_arg = Inr v
        \<and> 0 < sh \<and> 0 < sd"
  then have sh: "0 < sh" and sd: "0 < sd" by simp_all
  note hosts = virtual_init_hosts [OF conjunct1 [OF a]]
  let ?nh = "length (v_host_ids v) div sh" and ?nd = "v_num_devices_per_host v div sd"
  let ?grid = "concat (map (\<lambda>i. map (\<lambda>j. (i, j)) [0..<?nd]) [0..<?nh])"
  have each: "\<exists>nodes strs. v_host_info v = Some nodes
     \<and> submesh_at v sh sd (i, j)
        = Inr \<lparr>v_host_ids = map (\<lambda>x. v_host_ids v ! x) [i * sh..<(i + 1) * sh],
               v_host_info = Some (map (\<lambda>x. nodes ! x) [i * sh..<(i + 1) * sh]),
               v_head_ip = v_head_ip v, v_num_devices_per_host = sd,
               v_devices = replicate sh (map int [j * sd..<(j + 1) * sd]),
               v_device_strs = strs\<rparr>"
    if "i < ?nh" for i j
    by (rule submesh_at_result [OF hosts sh sd block_fits [OF that]])
  have "\<forall>ij \<in> set ?grid. \<exists>s. submesh_at v sh sd ij = Inr s"
  proof
    fix ij assume "ij \<in> set ?grid"
    then have "fst ij < ?nh" by auto
    from each [OF this, of "snd ij"] show "\<exists>s. submesh_at v sh sd ij = Inr s"
      by auto
  qed
  from collect_total [OF this] obtain subs where subs: "collect (submesh_at v sh sd) ?grid = Inr subs"
    by blast
  note rel = collect_list_all2 [OF subs]
  have run: "slice_profiling_submeshes v sh sd = Inr subs"
    using sh sd subs by (simp add: slice_profiling_submeshes_def)
  have len: "length subs = ?nh * ?nd"
    using list_all2_lengthD [OF rel] by (simp add: grid_pairs_length)
  have at: "slice_2d v (map int [i * sh..<(i + 1) * sh])
                   (replicate sh (map int [j * sd..<(j + 1) * sd]))
                 = Inr (subs ! (i * ?nd + j))
               \<and> v_shape (subs ! (i * ?nd + j)) = (sh, sd)
               \<and> v_host_ids (subs ! (i * ?nd + j))
                   = map (\<lambda>x. v_host_ids v ! x) [i * sh..<(i + 1) * sh]
               \<and> v_host_info (subs ! (i * ?nd + j))
                   = map_option (\<lambda>nodes. map (\<lambda>x. nodes ! x) [i * sh..<(i + 1) * sh])
                       (v_host_info v)
               \<and> v_devices (subs ! (i * ?nd + j))
                   = replicate sh (map int [j * sd..<(j + 1) * sd])
               \<and> v_head_ip (subs ! (i * ?nd + j)) = v_head_ip v
               \<and> (i + 1) * sh \<le> length (v_host_ids v)
               \<and> (j + 1) * sd \<le> v_num_devices_per_host v"
    if i: "i < ?nh" and j: "j < ?nd" for i j
  proof -
    have "i * ?nd + j < length ?grid"
    proof -
      from i have "i + 1 \<le> ?nh" by simp
      then have "(i + 1) * ?nd \<le> ?nh * ?nd" by (rule mult_le_mono1)
      with j show ?thesis by (simp add: grid_pairs_length)
    qed
    from list_all2_nthD [OF rel this] grid_pairs_nth [OF i j]
    have sub: "submesh_at v sh sd (i, j) = Inr (subs ! (i * ?nd + j))"
      by simp
    have slice: "submesh_at v sh sd (i, j)
        = slice_2d v (map int [i * sh..<(i + 1) * sh])
            (replicate sh (map int [j * sd..<(j + 1) * sd]))"
      by (simp add: submesh_at_def Let_def map_replicate_const)
    from each [OF i, of j] sub slice block_fits [OF i] block_fits [OF j] show ?thesis
      by (auto simp: v_shape_def)
  qed
  from run len at
  show "\<exists>subs. slice_profiling_submeshes v sh sd = Inr subs
         \<and> length subs = ?nh * ?nd
         \<and> (\<forall>i<?nh. \<forall>j<?nd.
               slice_2d v (map int [i * sh..<(i + 1) * sh])
                   (replicate sh (map int [j * sd..<(j + 1) * sd]))
                 = Inr (subs ! (i * ?nd + j))
               \<and> v_shape (subs ! (i * ?nd + j)) = (sh, sd)
               \<and> v_host_ids (subs ! (i * ?nd + j))
                   = map (\<lambda>x. v_host_ids v ! x) [i * sh..<(i + 1) * sh]
               \<and> v_host_info (subs ! (i * ?nd + j))
                   = map_option (\<lambda>nodes. map (\<lambda>x. nodes ! x) [i * sh..<(i + 1) * sh])
                       (v_host_info v)
               \<and> v_devices (subs ! (i * ?nd + j))
                   = replicate sh (map int [j * sd..<(j + 1) * sd])
               \<and> v_head_ip (subs ! (i * ?nd + j)) = v_head_ip v
               \<and> (i + 1) * sh \<le> length (v_host_ids v)
               \<and> (j + 1) * sd \<le> v_num_devices_per_host v)"
    by (intro exI [of _ subs]) blast
next
  show "\<forall>i j i' j'. (i, j) \<noteq> (i', j') \<longrightarrow>
         (set [i * sh..<(i + 1) * sh] \<times> set [j * sd..<(j + 1) * sd])
           \<inter> (set [i' * sh..<(i' + 1) * sh] \<times> set [j' * sd..<(j' + 1) * sd]) = {}"
    using blocks_disjoint by blast
qed

theorem slice_profiling_submeshes_grid_witness:
  "\<exists>subs. slice_profiling_submeshes
      \<lparr>v_host_ids = [0, 1],
       v_host_info = Some [[''NodeManagerAddress'' \<mapsto> ''10.0.0.1''],
                           [''NodeManagerAddress'' \<mapsto> ''10.0.0.2'']],
       v_head_ip = Some ''10.0.0.1'', v_num_devices_per_host = 2,
       v_devices = [[0, 1], [0, 1]],
       v_device_strs = [''10.0.0.1:gpu:0'', ''10.0.0.1:gpu:1'', ''10.0.0.1:gpu:0'',
                        ''10.0.0.1:gpu:1'', ''10.0.0.2:gpu:0'', ''10.0.0.2:gpu:1'',
                        ''10.0.0.2:gpu:0'', ''10.0.0.2:gpu:1'']\<rparr> 1 1 = Inr subs
     \<and> length subs = 4
     \<and> v_shape (subs ! 3) = (1, 1)
     \<and> v_host_ids (subs ! 3) = [1]
     \<and> v_devices (subs ! 3) = [[1]]
     \<and> v_host_info (subs ! 3) = Some [[''NodeManagerAddress'' \<mapsto> ''10.0.0.2'']]"
proof -
  let ?v = "\<lparr>v_host_ids = [0, 1],
       v_host_info = Some [[''NodeManagerAddress'' \<mapsto> ''10.0.0.1''],
                           [''NodeManagerAddress'' \<mapsto> ''10.0.0.2'']],
       v_head_ip = Some ''10.0.0.1'', v_num_devices_per_host = 2,
       v_devices = [[0, 1], [0, 1]],
       v_device_strs = [''10.0.0.1:gpu:0'', ''10.0.0.1:gpu:1'', ''10.0.0.1:gpu:0'',
                        ''10.0.0.1:gpu:1'', ''10.0.0.2:gpu:0'', ''10.0.0.2:gpu:1'',
                        ''10.0.0.2:gpu:0'', ''10.0.0.2:gpu:1'']\<rparr>"
  have pre: "VirtualPhysicalMesh_init (Some [0, 1])
      (Some [[''NodeManagerAddress'' \<mapsto> ''10.0.0.1''], [''NodeManagerAddress'' \<mapsto> ''10.0.0.2'']])
      (Some ''10.0.0.1'') 2 None = Inr ?v \<and> 0 < (1 :: nat) \<and> 0 < (1 :: nat)"
    using example_virtual_init by simp
  from slice_profiling_submeshes_grid
    [where v = ?v and sh = 1 and sd = 1, THEN conjunct2, THEN conjunct1, THEN mp, OF pre]
  obtain subs where run: "slice_profiling_submeshes ?v 1 1 = Inr subs"
    and len: "length subs = (length (v_host_ids ?v) div 1) * (v_num_devices_per_host ?v div 1)"
    and at: "\<forall>i<length (v_host_ids ?v) div 1. \<forall>j<v_num_devices_per_host ?v div 1.
               slice_2d ?v (map int [i * 1..<(i + 1) * 1])
                   (replicate 1 (map int [j * 1..<(j + 1) * 1]))
                 = Inr (subs ! (i * (v_num_devices_per_host ?v div 1) + j))
               \<and> v_shape (subs ! (i * (v_num_devices_per_host ?v div 1) + j)) = (1, 1)
               \<and> v_host_ids (subs ! (i * (v_num_devices_per_host ?v div 1) + j))
                   = map (\<lambda>x. v_host_ids ?v ! x) [i * 1..<(i + 1) * 1]
               \<and> v_host_info (subs ! (i * (v_num_devices_per_host ?v div 1) + j))
                   = map_option (\<lambda>nodes. map (\<lambda>x. nodes ! x) [i * 1..<(i + 1) * 1])
                       (v_host_info ?v)
               \<and> v_devices (subs ! (i * (v_num_devices_per_host ?v div 1) + j))
                   = replicate 1 (map int [j * 1..<(j + 1) * 1])
               \<and> v_head_ip (subs ! (i * (v_num_devices_per_host ?v div 1) + j)) = v_head_ip ?v
               \<and> (i + 1) * 1 \<le> length (v_host_ids ?v)
               \<and> (j + 1) * 1 \<le> v_num_devices_per_host ?v"
    by blast
  have "(1 :: nat) < length (v_host_ids ?v) div 1" "(1 :: nat) < v_num_devices_per_host ?v div 1"
    by simp_all
  with at have last: "v_shape (subs ! (1 * (v_num_devices_per_host ?v div 1) + 1)) = (1, 1)
      \<and> v_host_ids (subs ! (1 * (v_num_devices_per_host ?v div 1) + 1))
          = map (\<lambda>x. v_host_ids ?v ! x) [1 * 1..<(1 + 1) * 1]
      \<and> v_host_info (subs ! (1 * (v_num_devices_per_host ?v div 1) + 1))
          = map_option (\<lambda>nodes. map (\<lambda>x. nodes ! x) [1 * 1..<(1 + 1) * 1]) (v_host_info ?v)
      \<and> v_devices (subs ! (1 * (v_num_devices_per_host ?v div 1) + 1))
          = replicate 1 (map int [1 * 1..<(1 + 1) * 1])"
    by blast
  have idx: "1 * (v_num_devices_per_host ?v div 1) + 1 = 3" by simp
  have rng: "[1 * 1..<(1 + 1) * 1] = [1 :: nat]" by (simp add: upt_rec)
  from last have "v_shape (subs ! 3) = (1, 1) \<and> v_host_ids (subs ! 3) = [1]
      \<and> v_devices (subs ! 3) = [[1]]
      \<and> v_host_info (subs ! 3) = Some [[''NodeManagerAddress'' \<mapsto> ''10.0.0.2'']]"
    unfolding idx rng by simp
  moreover from len have "length subs = 4" by simp
  ultimately show ?thesis using run by blast
qed

end
